theory Spec2Isabelle
  imports Complex_Main "HOL-Library.Sublist"
begin

section \<open>Python values the model needs\<close>

text \<open>
  Exceptions are values. A function that mutates an object returns the object together
  with its outcome, so the state reached when an exception is raised stays visible:
  Python does not undo the assignments made before a raise.

  Floats are read as reals: the claims below are about control flow and data flow, not
  about rounding. The one float outside the reals that the sources name is
  \<^verbatim>\<open>np.inf\<close>, the default of \<^verbatim>\<open>Trajectory.time_after_contact\<close>.
\<close>

datatype error =
    IndexError
  | KeyError string
  | AttributeError string
  | TypeError string
  | ValueError string
  | AssertionError
  | SystemExit "int option"
  | IllTyped string

datatype pyfloat = Finite real | Infinity

text \<open>
  \<^verbatim>\<open>sys.exit(arg)\<close> raises \<^verbatim>\<open>SystemExit(arg)\<close>; the interpreter turns an
  uncaught \<^verbatim>\<open>SystemExit\<close> into the exit status of the process: 0 when the argument
  is \<^verbatim>\<open>None\<close>, the argument when it is an integer. Any other uncaught exception
  ends the process with status 1, and a run that returns ends it with status 0.
\<close>

fun exit_status :: "error option \<Rightarrow> int" where
  "exit_status None = 0"
| "exit_status (Some (SystemExit None)) = 0"
| "exit_status (Some (SystemExit (Some n))) = n"
| "exit_status (Some e) = 1"

text \<open>\<^verbatim>\<open>xs[-1]\<close> and \<^verbatim>\<open>xs[i]\<close> for \<open>i \<ge> 0\<close>: an IndexError out of range.\<close>

definition last_item :: "'a list \<Rightarrow> error + 'a" where
  "last_item xs = (if xs = [] then Inl IndexError else Inr (last xs))"

definition item :: "'a list \<Rightarrow> nat \<Rightarrow> error + 'a" where
  "item xs i = (if i < length xs then Inr (xs ! i) else Inl IndexError)"

definition enumerate_py :: "'a list \<Rightarrow> (nat \<times> 'a) list" where
  "enumerate_py xs = zip [0..<length xs] xs"

section \<open>Rigid transforms (\<^verbatim>\<open>tiny_tamp.pb_utils\<close>)\<close>

type_synonym point = "real \<times> real \<times> real"
type_synonym quat = "real \<times> real \<times> real \<times> real"
type_synonym pose = "point \<times> quat"

text \<open>
  Modelled from the spec: \<^verbatim>\<open>pbu.Point\<close>, \<^verbatim>\<open>pbu.Pose\<close>, \<^verbatim>\<open>pbu.unit_pose\<close> and
  \<^verbatim>\<open>pbu.multiply\<close>; the module \<^verbatim>\<open>tiny_tamp.pb_utils\<close> is not among the sources.
  The spec calls a pose a rigid transform in the world frame and \<^verbatim>\<open>multiply\<close> the
  composition of rigid transforms. A pose is a translation and a quaternion \<open>(x, y, z, w)\<close>;
  composing \<open>(p\<^sub>1, q\<^sub>1)\<close> with \<open>(p\<^sub>2, q\<^sub>2)\<close> translates by \<open>p\<^sub>1 + R(q\<^sub>1) p\<^sub>2\<close> and
  rotates by the quaternion product, and \<^verbatim>\<open>multiply\<close> folds that from the left over
  its arguments.
\<close>

definition Point :: "real \<Rightarrow> real \<Rightarrow> real \<Rightarrow> point" where
  "Point x y z = (x, y, z)"

definition unit_quat :: quat where
  "unit_quat = (0, 0, 0, 1)"

definition Pose :: "point \<Rightarrow> pose" where
  "Pose pt = (pt, unit_quat)"

definition unit_pose :: pose where
  "unit_pose = Pose (Point 0 0 0)"

fun quat_mult :: "quat \<Rightarrow> quat \<Rightarrow> quat" where
  "quat_mult (x1, y1, z1, w1) (x2, y2, z2, w2) =
     (w1 * x2 + x1 * w2 + y1 * z2 - z1 * y2,
      w1 * y2 - x1 * z2 + y1 * w2 + z1 * x2,
      w1 * z2 + x1 * y2 - y1 * x2 + z1 * w2,
      w1 * w2 - x1 * x2 - y1 * y2 - z1 * z2)"

fun quat_rotate :: "quat \<Rightarrow> point \<Rightarrow> point" where
  "quat_rotate (x, y, z, w) (a, b, c) =
     (let s = 2 / (x * x + y * y + z * z + w * w) in
       ((1 - s * (y * y + z * z)) * a + s * (x * y - w * z) * b + s * (x * z + w * y) * c,
        s * (x * y + w * z) * a + (1 - s * (x * x + z * z)) * b + s * (y * z - w * x) * c,
        s * (x * z - w * y) * a + s * (y * z + w * x) * b + (1 - s * (x * x + y * y)) * c))"

fun point_add :: "point \<Rightarrow> point \<Rightarrow> point" where
  "point_add (a1, b1, c1) (a2, b2, c2) = (a1 + a2, b1 + b2, c1 + c2)"

fun multiplyTransforms :: "pose \<Rightarrow> pose \<Rightarrow> pose" where
  "multiplyTransforms (p1, q1) (p2, q2) = (point_add p1 (quat_rotate q1 p2), quat_mult q1 q2)"

text \<open>\<^verbatim>\<open>pbu.multiply(pose, *poses)\<close>: every call in the sources passes a first pose.\<close>

definition multiply :: "pose \<Rightarrow> pose list \<Rightarrow> pose" where
  "multiply pose poses = foldl multiplyTransforms pose poses"

section \<open>The simulation backend (one pybullet client)\<close>

text \<open>
  Modelled from the spec: the backend behind \<^verbatim>\<open>tiny_tamp.pb_utils\<close>, which the spec
  lists as object instantiation, pose get and set, and joint enumeration, limits and
  positions, keyed by a session handle and body and joint identifiers. One client is one
  \<open>world\<close>: the base pose of every body, the joint positions, the next free body
  identifier, and per body the names of its joints and links, the joint limits and the
  kinematics (the world pose of a link as a function of the body's joint positions).
\<close>

record world =
  body_pose :: "nat \<rightharpoonup> pose"
  joint_position :: "nat \<times> nat \<Rightarrow> real"
  num_bodies :: nat
  joint_names :: "nat \<Rightarrow> (string \<times> nat) list"
  link_names :: "nat \<Rightarrow> (string \<times> nat) list"
  joint_limits :: "nat \<Rightarrow> nat \<Rightarrow> real \<times> real"
  link_pose :: "nat \<Rightarrow> nat \<Rightarrow> (nat \<Rightarrow> real) \<Rightarrow> pose"

definition create_box :: "world \<Rightarrow> nat \<times> world" where
  "create_box w =
     (num_bodies w,
      w\<lparr>body_pose := (body_pose w)(num_bodies w \<mapsto> unit_pose), num_bodies := Suc (num_bodies w)\<rparr>)"

definition set_pose :: "nat \<Rightarrow> pose \<Rightarrow> world \<Rightarrow> world" where
  "set_pose body p w = w\<lparr>body_pose := (body_pose w)(body \<mapsto> p)\<rparr>"

fun joints_from_names :: "nat \<Rightarrow> string list \<Rightarrow> world \<Rightarrow> error + nat list" where
  "joints_from_names body [] w = Inr []"
| "joints_from_names body (name # names) w =
     (case map_of (joint_names w body) name of
        None \<Rightarrow> Inl (ValueError name)
      | Some j \<Rightarrow>
          (case joints_from_names body names w of
             Inl e \<Rightarrow> Inl e
           | Inr js \<Rightarrow> Inr (j # js)))"

definition link_from_name :: "nat \<Rightarrow> string \<Rightarrow> world \<Rightarrow> error + nat" where
  "link_from_name body name w =
     (case map_of (link_names w body) name of
        None \<Rightarrow> Inl (ValueError name)
      | Some l \<Rightarrow> Inr l)"


definition get_custom_limits :: "nat \<Rightarrow> nat list \<Rightarrow> world \<Rightarrow> real list \<times> real list" where
  "get_custom_limits body joints w =
     (map (\<lambda>j. fst (joint_limits w body j)) joints, map (\<lambda>j. snd (joint_limits w body j)) joints)"

fun assign_joints :: "nat \<Rightarrow> (nat \<times> real) list \<Rightarrow> world \<Rightarrow> world" where
  "assign_joints body [] w = w"
| "assign_joints body ((j, v) # jvs) w =
     assign_joints body jvs (w\<lparr>joint_position := (joint_position w)((body, j) := v)\<rparr>)"

definition set_joint_positions :: "nat \<Rightarrow> nat list \<Rightarrow> real list \<Rightarrow> world \<Rightarrow> error + world" where
  "set_joint_positions body joints values w =
     (if length joints \<noteq> length values then Inl AssertionError
      else Inr (assign_joints body (zip joints values) w))"

section \<open>\<^verbatim>\<open>structs.py\<close>: constants and data classes\<close>

definition ARM_GROUP :: string where
  "ARM_GROUP = ''main_arm''"

definition GRIPPER_GROUP :: string where
  "GRIPPER_GROUP = ''main_gripper''"

definition PANDA_TOOL_TIP :: string where
  "PANDA_TOOL_TIP = ''panda_tool_tip''"

definition PANDA_GROUPS :: "(string \<times> string list) list" where
  "PANDA_GROUPS =
     [(''base'', []),
      (''main_arm'', [''panda_joint1'', ''panda_joint2'', ''panda_joint3'', ''panda_joint4'',
                      ''panda_joint5'', ''panda_joint6'', ''panda_joint7'']),
      (''main_gripper'', [''panda_finger_joint1'', ''panda_finger_joint2''])]"

definition PREGRASP_DISTANCE :: real where
  "PREGRASP_DISTANCE = 5 / 100"

record ObjectState =
  create_object :: "world \<Rightarrow> nat \<times> world"
  pose :: pose
  category :: string

record WorldBelief =
  object_states :: "ObjectState list"
  robot_state :: "real list"
  gripper_open :: bool

text \<open>
  \<^verbatim>\<open>Attachment.parent_link\<close> is declared an int, and Python does not check it: the
  field holds whatever the caller passes, \<^verbatim>\<open>None\<close> included.
\<close>

record Attachment =
  parent :: nat
  parent_link :: "nat option"
  child :: nat
  parent_T_child :: pose

record Trajectory =
  traj_robot :: nat
  joints :: "nat list"
  path :: "real list list"
  velocity_scale :: pyfloat
  time_after_contact :: pyfloat
  attachments :: "Attachment list"

text \<open>
  The command classes. \<open>Other\<close> is any object that is none of the four classes the
  interpreter tests for (an instance of the base class \<^verbatim>\<open>Command\<close>, say), with its
  \<^verbatim>\<open>repr\<close>.
\<close>

datatype command =
    Traj Trajectory
  | ActivateGrasp nat "nat option" nat
  | DeactivateGrasp nat "nat option" nat
  | Sequence "command list" "string option"
  | Other string

record Grasp =
  attachment :: Attachment
  closed_position :: real

text \<open>
  The hardware sender (\<^verbatim>\<open>PandaSender\<close>) is a sink: the model keeps the calls made on
  it, oldest first. \<^verbatim>\<open>sender\<close> defaults to \<^verbatim>\<open>None\<close>.
\<close>

datatype hw_call =
    HwOpenGripper
  | HwCloseGripper
  | HwCommandArm "real list"
  | HwExecutePositionPath "(string \<times> real) list list"

record SimulatorInstance =
  client :: world
  robot :: nat
  table :: nat
  movable_objects :: "nat list"
  components :: "(string \<times> nat) list"
  real_robot :: bool
  sender :: "hw_call list option"

type_synonym 'a action = "SimulatorInstance \<Rightarrow> (error + 'a) \<times> SimulatorInstance"

section \<open>\<^verbatim>\<open>SimulatorInstance\<close>: methods\<close>

definition send :: "hw_call \<Rightarrow> unit action" where
  "send c self =
     (case sender self of
        None \<Rightarrow> (Inl (AttributeError ''NoneType''), self)
      | Some sent \<Rightarrow> (Inr (), self\<lparr>sender := Some (sent @ [c])\<rparr>))"

definition get_group_joints :: "string \<Rightarrow> SimulatorInstance \<Rightarrow> error + nat list" where
  "get_group_joints grp self =
     (case map_of PANDA_GROUPS grp of
        None \<Rightarrow> Inl (KeyError grp)
      | Some names \<Rightarrow> joints_from_names (robot self) names (client self))"

definition get_group_limits :: "string \<Rightarrow> SimulatorInstance \<Rightarrow> error + real list \<times> real list" where
  "get_group_limits grp self =
     (case get_group_joints grp self of
        Inl e \<Rightarrow> Inl e
      | Inr js \<Rightarrow> Inr (get_custom_limits (robot self) js (client self)))"

text \<open>
  The property \<^verbatim>\<open>tool_link\<close> evaluates the lookup and falls off the end of its body:
  it has no \<^verbatim>\<open>return\<close>, so a call that does not raise yields \<^verbatim>\<open>None\<close>.
\<close>

definition tool_link :: "SimulatorInstance \<Rightarrow> error + nat option" where
  "tool_link self =
     (case link_from_name (robot self) PANDA_TOOL_TIP (client self) of
        Inl e \<Rightarrow> Inl e
      | Inr l \<Rightarrow> Inr None)"

definition set_group_positions :: "string \<Rightarrow> real list \<Rightarrow> unit action" where
  "set_group_positions grp positions self =
     (case get_group_joints grp self of
        Inl e \<Rightarrow> (Inl e, self)
      | Inr js \<Rightarrow>
          (case set_joint_positions (robot self) js positions (client self) of
             Inl e \<Rightarrow> (Inl e, self)
           | Inr w \<Rightarrow>
               (if real_robot self then send (HwCommandArm positions) (self\<lparr>client := w\<rparr>)
                else (Inr (), self\<lparr>client := w\<rparr>))))"

text \<open>
  \<^verbatim>\<open>def open_gripper(self)\<close> and \<^verbatim>\<open>def close_gripper(self)\<close> take no argument
  besides \<^verbatim>\<open>self\<close>. The first parameter of the model is the list of the further
  positional arguments of a call: a call that passes any is a TypeError raised before
  the body runs.
\<close>

definition open_gripper :: "command list \<Rightarrow> unit action" where
  "open_gripper args self =
     (if args \<noteq> [] then
        (Inl (TypeError ''open_gripper() takes 1 positional argument but 2 were given''), self)
      else
        (case get_group_limits GRIPPER_GROUP self of
           Inl e \<Rightarrow> (Inl e, self)
         | Inr (closed_conf, open_conf) \<Rightarrow>
             (case set_group_positions GRIPPER_GROUP open_conf self of
                (Inl e, self') \<Rightarrow> (Inl e, self')
              | (Inr u, self') \<Rightarrow>
                  (if real_robot self' then send HwOpenGripper self' else (Inr (), self')))))"

definition close_gripper :: "command list \<Rightarrow> unit action" where
  "close_gripper args self =
     (if args \<noteq> [] then
        (Inl (TypeError ''close_gripper() takes 1 positional argument but 2 were given''), self)
      else
        (case get_group_limits GRIPPER_GROUP self of
           Inl e \<Rightarrow> (Inl e, self)
         | Inr (closed_conf, open_conf) \<Rightarrow>
             (case set_group_positions GRIPPER_GROUP closed_conf self of
                (Inl e, self') \<Rightarrow> (Inl e, self')
              | (Inr u, self') \<Rightarrow>
                  (if real_robot self' then send HwCloseGripper self' else (Inr (), self')))))"

text \<open>
  \<^verbatim>\<open>command_trajectory(self, trajectory, dt)\<close>: the loop over the waypoints, with the
  list \<^verbatim>\<open>named_positions\<close> it builds (\<^verbatim>\<open>time.sleep\<close> changes no state), then the
  hand-over to the sender.
\<close>

fun waypoints :: "real list list \<Rightarrow> (string \<times> real) list list \<Rightarrow>
    SimulatorInstance \<Rightarrow> (error + (string \<times> real) list list) \<times> SimulatorInstance" where
  "waypoints [] named_positions self = (Inr named_positions, self)"
| "waypoints (positions # rest) named_positions self =
     (case set_group_positions ARM_GROUP positions self of
        (Inl e, self') \<Rightarrow> (Inl e, self')
      | (Inr u, self') \<Rightarrow>
          waypoints rest
            (named_positions @ [zip (the (map_of PANDA_GROUPS ARM_GROUP)) positions]) self')"

definition command_trajectory :: "real list list \<Rightarrow> unit action" where
  "command_trajectory trajectory self =
     (case waypoints trajectory [] self of
        (Inl e, self') \<Rightarrow> (Inl e, self')
      | (Inr named_positions, self') \<Rightarrow>
          (if real_robot self' then send (HwExecutePositionPath named_positions) self'
           else (Inr (), self')))"

text \<open>
  \<^verbatim>\<open>execute_sequence(self, sequence)\<close> iterates over a list of commands; for a
  \<^verbatim>\<open>Sequence\<close> it calls itself on \<^verbatim>\<open>command.commands\<close>. An exception ends the loop
  and every enclosing call.
\<close>

fun execute_sequence :: "command list \<Rightarrow> unit action" where
  "execute_sequence [] self = (Inr (), self)"
| "execute_sequence (Traj t # rest) self =
     (case command_trajectory (path t) self of
        (Inl e, self') \<Rightarrow> (Inl e, self')
      | (Inr u, self') \<Rightarrow> execute_sequence rest self')"
| "execute_sequence (ActivateGrasp r l b # rest) self =
     (case close_gripper [ActivateGrasp r l b] self of
        (Inl e, self') \<Rightarrow> (Inl e, self')
      | (Inr u, self') \<Rightarrow> execute_sequence rest self')"
| "execute_sequence (DeactivateGrasp r l b # rest) self =
     (case open_gripper [DeactivateGrasp r l b] self of
        (Inl e, self') \<Rightarrow> (Inl e, self')
      | (Inr u, self') \<Rightarrow> execute_sequence rest self')"
| "execute_sequence (Sequence commands name # rest) self =
     (case execute_sequence commands self of
        (Inl e, self') \<Rightarrow> (Inl e, self')
      | (Inr u, self') \<Rightarrow> execute_sequence rest self')"
| "execute_sequence (Other repr # rest) self =
     (Inl (ValueError (''Unknown command type: '' @ repr)), self)"

text \<open>
  \<^verbatim>\<open>set_belief(self, belief)\<close>: the assertion on the two lengths, then for every
  object state of the belief a call of its factory \<^verbatim>\<open>create_object\<close> on the client and
  \<^verbatim>\<open>pbu.set_pose\<close> on the body the factory returns, then the arm and the gripper.
\<close>

definition arm_group :: string where
  "arm_group = ''main_arm''"

fun set_object_poses :: "ObjectState list \<Rightarrow> world \<Rightarrow> world" where
  "set_object_poses [] w = w"
| "set_object_poses (obj_state # rest) w =
     (case create_object obj_state w of
        (body, w') \<Rightarrow> set_object_poses rest (set_pose body (pose obj_state) w'))"

definition set_belief :: "WorldBelief \<Rightarrow> unit action" where
  "set_belief b self =
     (if length (object_states b) \<noteq> length (movable_objects self) then (Inl AssertionError, self)
      else
        (case set_group_positions arm_group (robot_state b)
                (self\<lparr>client := set_object_poses (object_states b) (client self)\<rparr>) of
           (Inl e, self') \<Rightarrow> (Inl e, self')
         | (Inr u, self') \<Rightarrow>
             (if gripper_open b then open_gripper [] self' else close_gripper [] self')))"

text \<open>
  \<^verbatim>\<open>from_belief(belief, gui)\<close>. The new client and the robot it loads from the URDF
  are parameters: \<open>load_pybullet\<close> adds the robot to the fresh world \<open>w0\<close>.
\<close>

definition TABLE_POSE :: pose where
  "TABLE_POSE = Pose (45 / 100, 0, - (3 / 100 / 2))"

fun add_objects :: "ObjectState list \<Rightarrow> nat list \<Rightarrow> world \<Rightarrow> nat list \<times> world" where
  "add_objects [] movable w = (movable, w)"
| "add_objects (obj_state # rest) movable w =
     (case create_object obj_state w of
        (obj, w') \<Rightarrow> add_objects rest (movable @ [obj]) (set_pose obj (pose obj_state) w'))"

definition from_belief ::
    "(world \<Rightarrow> nat \<times> world) \<Rightarrow> world \<Rightarrow> WorldBelief \<Rightarrow> error + SimulatorInstance" where
  "from_belief load_pybullet w0 b =
     (case load_pybullet w0 of
        (robot_body, w1) \<Rightarrow>
          (case create_box w1 of
             (tbl, w2) \<Rightarrow>
               (case add_objects (object_states b) [] (set_pose tbl TABLE_POSE w2) of
                  (movable, w3) \<Rightarrow>
                    (case (if gripper_open b then open_gripper [] else close_gripper [])
                            \<lparr>client = w3, robot = robot_body, table = tbl,
                             movable_objects = movable, components = [],
                             real_robot = False, sender = None\<rparr> of
                       (Inl e, inst) \<Rightarrow> Inl e
                     | (Inr u, inst) \<Rightarrow>
                         (case set_group_positions arm_group (robot_state b) inst of
                            (Inl e, inst') \<Rightarrow> Inl e
                          | (Inr u', inst') \<Rightarrow> Inr inst')))))"

section \<open>\<^verbatim>\<open>Trajectory.reverse\<close>\<close>

text \<open>
  \<^verbatim>\<open>reverse\<close> calls the class: the \<^verbatim>\<open>__init__\<close> that \<^verbatim>\<open>@dataclass\<close> generates,
  with the parameters \<^verbatim>\<open>robot, joints, path, velocity_scale=1.0,
  time_after_contact=np.inf, attachments=[]\<close>. Python binds the positional arguments to
  the parameters from the left, then the keyword arguments by name, and raises TypeError
  for an argument too many, an unknown or doubly bound name, or a parameter without
  default that is left unbound. It does not check the annotated types; \<open>IllTyped\<close>
  stands for an object whose fields break them, which the typed record cannot hold.
\<close>

datatype pyval =
    PInt nat
  | PIntList "nat list"
  | PPath "real list list"
  | PFloat pyfloat
  | PAttachments "Attachment list"

fun bind_positional :: "string list \<Rightarrow> pyval list \<Rightarrow> error + (string \<times> pyval) list" where
  "bind_positional params [] = Inr []"
| "bind_positional [] (a # args) =
     Inl (TypeError ''__init__() takes fewer positional arguments than were given'')"
| "bind_positional (p # params) (a # args) =
     (case bind_positional params args of
        Inl e \<Rightarrow> Inl e
      | Inr bound \<Rightarrow> Inr ((p, a) # bound))"

fun bind_keywords ::
    "string list \<Rightarrow> (string \<times> pyval) list \<Rightarrow> (string \<times> pyval) list \<Rightarrow>
     error + (string \<times> pyval) list" where
  "bind_keywords params bound [] = Inr bound"
| "bind_keywords params bound ((k, v) # kwargs) =
     (if k \<notin> set params then
        Inl (TypeError (''__init__() got an unexpected keyword argument '' @ k))
      else if map_of bound k \<noteq> None then
        Inl (TypeError (''__init__() got multiple values for argument '' @ k))
      else bind_keywords params (bound @ [(k, v)]) kwargs)"

definition bind_args ::
    "string list \<Rightarrow> (string \<times> pyval) list \<Rightarrow> pyval list \<Rightarrow> (string \<times> pyval) list \<Rightarrow>
     error + (string \<rightharpoonup> pyval)" where
  "bind_args params defaults args kwargs =
     (case bind_positional params args of
        Inl e \<Rightarrow> Inl e
      | Inr bound \<Rightarrow>
          (case bind_keywords params bound kwargs of
             Inl e \<Rightarrow> Inl e
           | Inr bound' \<Rightarrow>
               (case filter (\<lambda>p. map_of bound' p = None \<and> map_of defaults p = None) params of
                  [] \<Rightarrow> Inr (map_of (bound' @ defaults))
                | p # ps \<Rightarrow>
                    Inl (TypeError (''__init__() missing required positional argument: '' @ p)))))"

definition Trajectory_params :: "string list" where
  "Trajectory_params =
     [''robot'', ''joints'', ''path'', ''velocity_scale'', ''time_after_contact'', ''attachments'']"

definition Trajectory_defaults :: "(string \<times> pyval) list" where
  "Trajectory_defaults =
     [(''velocity_scale'', PFloat (Finite 1)), (''time_after_contact'', PFloat Infinity),
      (''attachments'', PAttachments [])]"

fun as_int :: "pyval option \<Rightarrow> nat option" where
  "as_int (Some (PInt n)) = Some n"
| "as_int v = None"

fun as_int_list :: "pyval option \<Rightarrow> nat list option" where
  "as_int_list (Some (PIntList ns)) = Some ns"
| "as_int_list v = None"

fun as_path :: "pyval option \<Rightarrow> real list list option" where
  "as_path (Some (PPath p)) = Some p"
| "as_path v = None"

fun as_float :: "pyval option \<Rightarrow> pyfloat option" where
  "as_float (Some (PFloat x)) = Some x"
| "as_float v = None"

fun as_attachments :: "pyval option \<Rightarrow> Attachment list option" where
  "as_attachments (Some (PAttachments as)) = Some as"
| "as_attachments v = None"

definition Trajectory_init :: "pyval list \<Rightarrow> (string \<times> pyval) list \<Rightarrow> error + Trajectory" where
  "Trajectory_init args kwargs =
     (case bind_args Trajectory_params Trajectory_defaults args kwargs of
        Inl e \<Rightarrow> Inl e
      | Inr f \<Rightarrow>
          (case (as_int (f ''robot''), as_int_list (f ''joints''), as_path (f ''path''),
                 as_float (f ''velocity_scale''), as_float (f ''time_after_contact''),
                 as_attachments (f ''attachments'')) of
             (Some r, Some js, Some p, Some v, Some t, Some as) \<Rightarrow>
               Inr \<lparr>traj_robot = r, joints = js, path = p, velocity_scale = v,
                    time_after_contact = t, attachments = as\<rparr>
           | other \<Rightarrow> Inl (IllTyped ''Trajectory'')))"

definition reverse :: "Trajectory \<Rightarrow> error + Trajectory" where
  "reverse self =
     Trajectory_init
       [PIntList (joints self), PPath (rev (path self))]
       [(''velocity_scale'', PFloat (velocity_scale self)),
        (''time_after_contact'', PFloat (time_after_contact self)),
        (''attachments'', PAttachments (attachments self))]"

section \<open>\<^verbatim>\<open>Grasp.get_pregrasp_pose\<close>\<close>

definition get_pregrasp_pose :: "Grasp \<Rightarrow> pose \<Rightarrow> pose \<Rightarrow> real \<Rightarrow> real \<Rightarrow> pose" where
  "get_pregrasp_pose self current_tool_pose gripper_T_tool tool_distance object_distance =
     multiply gripper_T_tool
       [Pose (Point tool_distance 0 0), current_tool_pose, Pose (Point 0 0 (- object_distance))]"

section \<open>\<^verbatim>\<open>tamp.py\<close>: the grasp generator\<close>

text \<open>
  \<^verbatim>\<open>get_grasp_gen_fn(sim, belief)\<close> returns \<^verbatim>\<open>gen_fn\<close>. The conversion of Euler
  angles to a quaternion behind \<^verbatim>\<open>pbu.Pose(euler=...)\<close> is a parameter.
\<close>

definition gen_fn :: "(point \<Rightarrow> quat) \<Rightarrow> SimulatorInstance \<Rightarrow> nat \<Rightarrow> error + Grasp" where
  "gen_fn quat_from_euler sim obj =
     (case get_group_limits GRIPPER_GROUP sim of
        Inl e \<Rightarrow> Inl e
      | Inr (closed_conf, open_conf) \<Rightarrow>
          (case item closed_conf 0 of
             Inl e \<Rightarrow> Inl e
           | Inr c \<Rightarrow>
               (case tool_link sim of
                  Inl e \<Rightarrow> Inl e
                | Inr link \<Rightarrow>
                    Inr \<lparr>attachment =
                           \<lparr>parent = robot sim, parent_link = link, child = obj,
                            parent_T_child =
                              multiply (Point 0 0 0, quat_from_euler (0, - pi / 2, 0))
                                [Pose (Point 0 0 (- (1 / 100)))]\<rparr>,
                         closed_position = c * (1 + 5 / 100)\<rparr>)))"

section \<open>\<^verbatim>\<open>tamp.py\<close>: the loop of \<^verbatim>\<open>main\<close>\<close>

text \<open>
  What the loop changes: the belief (mutated in place), the list
  \<^verbatim>\<open>plan_components\<close> and the lines printed. \<open>planner_calls\<close> records each call of
  \<^verbatim>\<open>get_pick_place_plan\<close> with the object handle and the placement passed to it.

  The planner \<^verbatim>\<open>get_pick_place_plan\<close> and the metric \<^verbatim>\<open>pbu.get_pose_distance\<close> are
  parameters (their modules are not among the sources); the planner stands for the call
  with the twin instance, the grasp sampler and the motion planner of the run, and
  returns the sub-plan (\<^verbatim>\<open>None\<close> when there is none) and the statistics.
\<close>

datatype 'st printed = Text string | Json 'st

record 'st run =
  belief :: WorldBelief
  plan_components :: "command list"
  printed :: "'st printed list"
  planner_calls :: "(nat \<times> pose) list"

text \<open>Attribute reads: \<^verbatim>\<open>.commands\<close> exists on a Sequence, \<^verbatim>\<open>.path\<close> on a Trajectory.\<close>

fun attr_commands :: "command \<Rightarrow> error + command list" where
  "attr_commands (Sequence cs name) = Inr cs"
| "attr_commands c = Inl (AttributeError ''commands'')"

fun attr_path :: "command \<Rightarrow> error + real list list" where
  "attr_path (Traj t) = Inr (path t)"
| "attr_path c = Inl (AttributeError ''path'')"

text \<open>\<^verbatim>\<open>subplan.commands[-1].commands[-1].path[-1]\<close>\<close>

definition final_configuration :: "command \<Rightarrow> error + real list" where
  "final_configuration subplan =
     (case attr_commands subplan of
        Inl e \<Rightarrow> Inl e
      | Inr cs \<Rightarrow>
          (case last_item cs of
             Inl e \<Rightarrow> Inl e
           | Inr c \<Rightarrow>
               (case attr_commands c of
                  Inl e \<Rightarrow> Inl e
                | Inr cs' \<Rightarrow>
                    (case last_item cs' of
                       Inl e \<Rightarrow> Inl e
                     | Inr c' \<Rightarrow>
                         (case attr_path c' of
                            Inl e \<Rightarrow> Inl e
                          | Inr p \<Rightarrow> last_item p)))))"

text \<open>
  The list comprehension over \<^verbatim>\<open>enumerate(belief.object_states)\<close>; the loop takes its
  element \<^verbatim>\<open>[0]\<close>.
\<close>

definition matches :: "ObjectState list \<Rightarrow> string \<Rightarrow> (nat \<times> ObjectState) list" where
  "matches objs cat = filter (\<lambda>(obj_idx, obj). category obj = cat) (enumerate_py objs)"

definition set_object_pose :: "nat \<Rightarrow> pose \<Rightarrow> WorldBelief \<Rightarrow> WorldBelief" where
  "set_object_pose i p b = b\<lparr>object_states := (object_states b)[i := (object_states b ! i)\<lparr>pose := p\<rparr>]\<rparr>"

definition goal_step ::
    "(pose \<Rightarrow> pose \<Rightarrow> real \<times> real) \<Rightarrow> (WorldBelief \<Rightarrow> nat \<Rightarrow> pose \<Rightarrow> command option \<times> 'st) \<Rightarrow>
     SimulatorInstance \<Rightarrow> ObjectState \<Rightarrow> 'st run \<Rightarrow> error option \<times> 'st run" where
  "goal_step get_pose_distance get_pick_place_plan twin_sim_instance goal_object_state st =
     (case matches (object_states (belief st)) (category goal_object_state) of
        [] \<Rightarrow> (Some IndexError, st)
      | (belief_object_index, belief_object) # others \<Rightarrow>
          (case get_pose_distance (pose belief_object) (pose goal_object_state) of
             (pos_error, ori_error) \<Rightarrow>
               (if pos_error > 1 / 100 \<or> ori_error > 1 / 100 then
                  (case item (movable_objects twin_sim_instance) belief_object_index of
                     Inl e \<Rightarrow> (Some e, st)
                   | Inr sim_obj \<Rightarrow>
                       (case get_pick_place_plan (belief st) sim_obj (pose goal_object_state) of
                          (None, statistics) \<Rightarrow>
                            (Some (SystemExit None),
                             st\<lparr>planner_calls :=
                                  planner_calls st @ [(sim_obj, pose goal_object_state)],
                                printed :=
                                  printed st @ [Text ''Planning failure'', Json statistics]\<rparr>)
                        | (Some subplan, statistics) \<Rightarrow>
                            (case final_configuration subplan of
                               Inl e \<Rightarrow>
                                 (Some e,
                                  st\<lparr>planner_calls :=
                                       planner_calls st @ [(sim_obj, pose goal_object_state)],
                                     belief :=
                                       set_object_pose belief_object_index
                                         (pose goal_object_state) (belief st)\<rparr>)
                             | Inr q \<Rightarrow>
                                 (None,
                                  st\<lparr>planner_calls :=
                                       planner_calls st @ [(sim_obj, pose goal_object_state)],
                                     belief :=
                                       (set_object_pose belief_object_index
                                          (pose goal_object_state) (belief st))
                                       \<lparr>robot_state := q\<rparr>,
                                     plan_components := plan_components st @ [subplan]\<rparr>))))
                else (None, st))))"

fun goal_loop ::
    "(pose \<Rightarrow> pose \<Rightarrow> real \<times> real) \<Rightarrow> (WorldBelief \<Rightarrow> nat \<Rightarrow> pose \<Rightarrow> command option \<times> 'st) \<Rightarrow>
     SimulatorInstance \<Rightarrow> ObjectState list \<Rightarrow> 'st run \<Rightarrow> error option \<times> 'st run" where
  "goal_loop d plan twin [] st = (None, st)"
| "goal_loop d plan twin (g # gs) st =
     (case goal_step d plan twin g st of
        (Some e, st') \<Rightarrow> (Some e, st')
      | (None, st') \<Rightarrow> goal_loop d plan twin gs st')"

text \<open>
  \<^verbatim>\<open>sim_instance.execute_command(plan_sequence)\<close>: the class SimulatorInstance
  defines no attribute \<^verbatim>\<open>execute_command\<close> (its interpreter is \<^verbatim>\<open>execute_sequence\<close>),
  so the attribute lookup raises before anything is executed.
\<close>

definition execute_command :: "command \<Rightarrow> unit action" where
  "execute_command c self = (Inl (AttributeError ''execute_command''), self)"

text \<open>The state in which the loop starts: \<^verbatim>\<open>plan_components = []\<close>, nothing printed.\<close>

definition start :: "WorldBelief \<Rightarrow> 'st run" where
  "start b = \<lparr>belief = b, plan_components = [], printed = [], planner_calls = []\<rparr>"

text \<open>
  \<^verbatim>\<open>main\<close> from the start of the loop on: the belief, the goal and the two simulator
  instances are those built before it. The result is the exception that ends the run
  (or \<open>None\<close>), the state of the loop and the primary instance.
\<close>

definition main ::
    "(pose \<Rightarrow> pose \<Rightarrow> real \<times> real) \<Rightarrow> (WorldBelief \<Rightarrow> nat \<Rightarrow> pose \<Rightarrow> command option \<times> 'st) \<Rightarrow>
     SimulatorInstance \<Rightarrow> SimulatorInstance \<Rightarrow> WorldBelief \<Rightarrow> WorldBelief \<Rightarrow>
     error option \<times> 'st run \<times> SimulatorInstance" where
  "main d plan twin_sim_instance sim_instance b goal_belief =
     (case goal_loop d plan twin_sim_instance (object_states goal_belief) (start b) of
        (Some e, st) \<Rightarrow> (Some e, st, sim_instance)
      | (None, st) \<Rightarrow>
          (case execute_command (Sequence (plan_components st) (Some ''rearrangement_plan''))
                  sim_instance of
             (Inl e, sim') \<Rightarrow> (Some e, st, sim')
           | (Inr u, sim') \<Rightarrow> (None, st, sim')))"

section \<open>The notions of the specification\<close>

text \<open>
  The fully flattened left-to-right leaf list of a list of command trees, the dispatch
  of one command (the branch the interpreter takes for it), and the dispatch of a list
  of commands one after the other, stopping at the first that raises.
\<close>

fun leaves :: "command list \<Rightarrow> command list" where
  "leaves [] = []"
| "leaves (Sequence cs name # rest) = leaves cs @ leaves rest"
| "leaves (c # rest) = c # leaves rest"

fun is_leaf :: "command \<Rightarrow> bool" where
  "is_leaf (Sequence cs name) = False"
| "is_leaf c = True"

definition dispatch :: "command \<Rightarrow> unit action" where
  "dispatch c self =
     (case c of
        Traj t \<Rightarrow> command_trajectory (path t) self
      | ActivateGrasp r l b \<Rightarrow> close_gripper [c] self
      | DeactivateGrasp r l b \<Rightarrow> open_gripper [c] self
      | Sequence cs name \<Rightarrow> execute_sequence cs self
      | Other repr \<Rightarrow> (Inl (ValueError (''Unknown command type: '' @ repr)), self))"

fun dispatch_in_order :: "command list \<Rightarrow> unit action" where
  "dispatch_in_order [] self = (Inr (), self)"
| "dispatch_in_order (c # cs) self =
     (case dispatch c self of
        (Inl e, self') \<Rightarrow> (Inl e, self')
      | (Inr u, self') \<Rightarrow> dispatch_in_order cs self')"

text \<open>The motion segments of a command tree: the trajectories among its leaves, in order.\<close>

fun trajectory_of :: "command \<Rightarrow> Trajectory list" where
  "trajectory_of (Traj t) = [t]"
| "trajectory_of c = []"

definition motion_segments :: "command \<Rightarrow> Trajectory list" where
  "motion_segments c = concat (map trajectory_of (leaves [c]))"


text \<open>
  Goal matching as the specification words it: a linear scan for the first belief object
  of the category, and the test that a goal object is within tolerance of it.
\<close>

fun first_index :: "ObjectState list \<Rightarrow> string \<Rightarrow> nat option" where
  "first_index [] cat = None"
| "first_index (obj # objs) cat =
     (if category obj = cat then Some 0 else map_option Suc (first_index objs cat))"

definition exceeds_tolerance :: "real \<times> real \<Rightarrow> bool" where
  "exceeds_tolerance e = (fst e > 1 / 100 \<or> snd e > 1 / 100)"

definition within_tolerance ::
    "(pose \<Rightarrow> pose \<Rightarrow> real \<times> real) \<Rightarrow> WorldBelief \<Rightarrow> ObjectState \<Rightarrow> bool" where
  "within_tolerance d b g =
     (case first_index (object_states b) (category g) of
        None \<Rightarrow> False
      | Some i \<Rightarrow> \<not> exceeds_tolerance (d (pose (object_states b ! i)) (pose g)))"

text \<open>
  A sub-plan of the shape \<^verbatim>\<open>main\<close> reads: a Sequence whose last command is a Sequence
  whose last command is a Trajectory with a waypoint.
\<close>

fun two_level :: "command \<Rightarrow> bool" where
  "two_level (Sequence cs name) =
     (cs \<noteq> [] \<and>
      (case last cs of
         Sequence cs' name' \<Rightarrow>
           cs' \<noteq> [] \<and> (case last cs' of Traj t \<Rightarrow> path t \<noteq> [] | other \<Rightarrow> False)
       | other \<Rightarrow> False))"
| "two_level c = False"

section \<open>\<^verbatim>\<open>tamp.py\<close>: the belief and the goal of the shipped run\<close>

definition DEFAULT_JOINT_POSITIONS :: "real list" where
  "DEFAULT_JOINT_POSITIONS =
     [- (806406098426434 / 10 ^ 16), - (16722951504174777 / 10 ^ 16),
      7069076842695393 / 10 ^ 17, - (27449419709102822 / 10 ^ 16),
      8184716251979611 / 10 ^ 17, 17516337599063168 / 10 ^ 16,
      7849295270972781 / 10 ^ 16]"

definition dummy_perception :: WorldBelief where
  "dummy_perception =
     \<lparr>object_states =
        [\<lparr>create_object = create_box,
          pose = multiply (Pose (Point 0 (1 / 10) (5 / 100))) [TABLE_POSE],
          category = ''red_box''\<rparr>,
         \<lparr>create_object = create_box,
          pose = multiply (Pose (Point 0 (- (1 / 10)) (5 / 100))) [TABLE_POSE],
          category = ''blue_box''\<rparr>],
      robot_state = DEFAULT_JOINT_POSITIONS,
      gripper_open = True\<rparr>"

definition dummy_get_goal :: "WorldBelief \<Rightarrow> error + WorldBelief" where
  "dummy_get_goal b =
     (case item (object_states b) 0 of
        Inl e \<Rightarrow> Inl e
      | Inr o0 \<Rightarrow>
          (case item (object_states b) 1 of
             Inl e \<Rightarrow> Inl e
           | Inr o1 \<Rightarrow>
               Inr (set_object_pose 1 (multiply (Pose (Point (- (1 / 10)) 0 0)) [pose o1])
                     (set_object_pose 0 (multiply (Pose (Point (1 / 10) 0 0)) [pose o0]) b))))"

section \<open>Example inputs\<close>

text \<open>
  A world with the Panda as body 0, the table as body 1 and the two boxes as bodies 2
  and 3; the tool tip is link 11 and slides along x with the first arm joint. An
  instance on that world, a metric, and three planners: one that returns a pick and a
  place sequence, one that finds no plan for body 3, and one that returns a flat
  sequence.
\<close>

definition example_world :: world where
  "example_world =
     \<lparr>body_pose =
        [0 \<mapsto> unit_pose, 1 \<mapsto> TABLE_POSE, 2 \<mapsto> unit_pose, 3 \<mapsto> Pose (Point 0 (- (1 / 10)) 0)],
      joint_position = (\<lambda>bj. 0),
      num_bodies = 4,
      joint_names =
        (\<lambda>b. if b = 0 then
           [(''panda_joint1'', 0), (''panda_joint2'', 1), (''panda_joint3'', 2),
            (''panda_joint4'', 3), (''panda_joint5'', 4), (''panda_joint6'', 5),
            (''panda_joint7'', 6), (''panda_finger_joint1'', 9), (''panda_finger_joint2'', 10)]
         else []),
      link_names = (\<lambda>b. if b = 0 then [(''panda_tool_tip'', 11)] else []),
      joint_limits = (\<lambda>b j. (0, 4 / 100)),
      link_pose = (\<lambda>b l q. Pose (Point (q 0) 0 0))\<rparr>"

definition example_sim :: SimulatorInstance where
  "example_sim =
     \<lparr>client = example_world, robot = 0, table = 1, movable_objects = [2, 3],
      components = [], real_robot = False, sender = None\<rparr>"

definition example_attachment :: Attachment where
  "example_attachment = \<lparr>parent = 0, parent_link = Some 11, child = 2, parent_T_child = unit_pose\<rparr>"

definition example_trajectory :: Trajectory where
  "example_trajectory =
     \<lparr>traj_robot = 0, joints = [0, 1, 2, 3, 4, 5, 6],
      path = [[0, 0, 0, 0, 0, 0, 0], [1, 0, 0, 0, 0, 0, 0]],
      velocity_scale = Finite 1, time_after_contact = Infinity,
      attachments = [example_attachment]\<rparr>"

fun example_distance :: "pose \<Rightarrow> pose \<Rightarrow> real \<times> real" where
  "example_distance ((x1, y1, z1), (a1, b1, c1, w1)) ((x2, y2, z2), (a2, b2, c2, w2)) =
     (\<bar>x1 - x2\<bar> + \<bar>y1 - y2\<bar> + \<bar>z1 - z2\<bar>, \<bar>a1 - a2\<bar> + \<bar>b1 - b2\<bar> + \<bar>c1 - c2\<bar> + \<bar>w1 - w2\<bar>)"

definition example_subplan :: "nat \<Rightarrow> command" where
  "example_subplan obj =
     Sequence
       [Sequence [Traj example_trajectory, ActivateGrasp 0 None obj] (Some ''pick''),
        Sequence [DeactivateGrasp 0 None obj, Traj example_trajectory] (Some ''place'')]
       None"

definition example_planner :: "WorldBelief \<Rightarrow> nat \<Rightarrow> pose \<Rightarrow> command option \<times> (string \<times> nat) list" where
  "example_planner b obj p = (Some (example_subplan obj), [(''attempts'', 1)])"

definition failing_planner :: "WorldBelief \<Rightarrow> nat \<Rightarrow> pose \<Rightarrow> command option \<times> (string \<times> nat) list" where
  "failing_planner b obj p =
     (if obj = 3 then (None, [(''attempts'', 10)]) else example_planner b obj p)"

definition flat_planner :: "WorldBelief \<Rightarrow> nat \<Rightarrow> pose \<Rightarrow> command option \<times> (string \<times> nat) list" where
  "flat_planner b obj p = (Some (Sequence [Traj example_trajectory] None), [(''attempts'', 1)])"

definition example_goal :: WorldBelief where
  "example_goal =
     set_object_pose 1
       (multiply (Pose (Point (- (1 / 10)) 0 0)) [pose (object_states dummy_perception ! 1)])
       (set_object_pose 0
          (multiply (Pose (Point (1 / 10) 0 0)) [pose (object_states dummy_perception ! 0)])
          dummy_perception)"

definition example_start :: "((string \<times> nat) list) run" where
  "example_start = start dummy_perception"

definition red_goal :: ObjectState where
  "red_goal = object_states example_goal ! 0"

definition blue_goal :: ObjectState where
  "blue_goal = object_states example_goal ! 1"

definition after_red :: "((string \<times> nat) list) run" where
  "after_red =
     \<lparr>belief =
        (set_object_pose 0 (pose red_goal) dummy_perception)\<lparr>robot_state := [1, 0, 0, 0, 0, 0, 0]\<rparr>,
      plan_components = [example_subplan 2], printed = [],
      planner_calls = [(2, pose red_goal)]\<rparr>"

section \<open>The command interpreter\<close>

lemma dispatch_in_order_append:
  "dispatch_in_order (xs @ ys) s =
     (case dispatch_in_order xs s of
        (Inl e, s') \<Rightarrow> (Inl e, s')
      | (Inr u, s') \<Rightarrow> dispatch_in_order ys s')"
  by (induction xs arbitrary: s) (auto split: prod.splits sum.splits)

lemma leaves_append: "leaves (xs @ ys) = leaves xs @ leaves ys"
  by (induction xs rule: leaves.induct) simp_all

lemma leaves_are_leaves: "list_all is_leaf (leaves cs)"
  by (induction cs rule: leaves.induct) simp_all

lemma execute_sequence_leaves: "execute_sequence cs s = dispatch_in_order (leaves cs) s"
  by (induction cs s rule: execute_sequence.induct)
     (auto simp: dispatch_def dispatch_in_order_append split: prod.splits sum.splits)

text \<open>
  C5. Executing a list of command trees is dispatching the leaves of the fully
  flattened list from left to right, whatever the nesting: every leaf is dispatched in
  that order until one of them raises, the flattened list holds no Sequence, and an
  object of no known command class raises ValueError where the loop reaches it, the
  commands after it left alone.
\<close>

theorem execute_sequence_is_flattened_dispatch:
  "execute_sequence cs s = dispatch_in_order (leaves cs) s
   \<and> execute_sequence [Sequence cs name] s = dispatch_in_order (leaves cs) s
   \<and> list_all is_leaf (leaves cs)
   \<and> execute_sequence (Other r # rest) s =
       (Inl (ValueError (''Unknown command type: '' @ r)), s)"
proof -
  have nested: "execute_sequence [Sequence cs name] s = execute_sequence cs s"
    by (simp split: prod.splits sum.splits)
  have unknown: "execute_sequence (Other r # rest) s =
      (Inl (ValueError (''Unknown command type: '' @ r)), s)"
    by simp
  from nested unknown show ?thesis
    by (simp only: execute_sequence_leaves leaves_are_leaves simp_thms)
qed

text \<open>
  Called without a further argument, as \<^verbatim>\<open>from_belief\<close> and \<^verbatim>\<open>set_belief\<close> call
  them, the two gripper methods command the finger joints to the lower and to the upper
  joint limit.
\<close>

lemma gripper_methods_without_argument:
  "fst (close_gripper [] example_sim) = Inr ()
   \<and> joint_position (client (snd (close_gripper [] example_sim))) (0, 9) = 0
   \<and> fst (open_gripper [] example_sim) = Inr ()
   \<and> joint_position (client (snd (open_gripper [] example_sim))) (0, 9) = 4 / 100
   \<and> joint_position (client (snd (open_gripper [] example_sim))) (0, 10) = 4 / 100"
  by (simp add: example_sim_def example_world_def close_gripper_def open_gripper_def
      get_group_limits_def get_group_joints_def get_custom_limits_def GRIPPER_GROUP_def
      PANDA_GROUPS_def set_group_positions_def set_joint_positions_def)

text \<open>
  C7. The interpreter calls \<^verbatim>\<open>self.close_gripper(command)\<close> and
  \<^verbatim>\<open>self.open_gripper(command)\<close>, and both methods take no argument besides
  \<^verbatim>\<open>self\<close>: executing an ActivateGrasp or a DeactivateGrasp leaf raises TypeError and
  leaves the instance as it was, the gripper joints included.
\<close>

theorem grasp_leaves_raise_TypeError:
  "execute_sequence [ActivateGrasp r l b] s =
     (Inl (TypeError ''close_gripper() takes 1 positional argument but 2 were given''), s)
   \<and> execute_sequence [DeactivateGrasp r l b] s =
     (Inl (TypeError ''open_gripper() takes 1 positional argument but 2 were given''), s)"
  by (simp add: close_gripper_def open_gripper_def)

section \<open>Trajectories\<close>

text \<open>
  C6. \<^verbatim>\<open>Trajectory.reverse\<close> passes \<^verbatim>\<open>self.joints\<close> and the reversed path as the
  first two positional arguments and leaves \<^verbatim>\<open>self.robot\<close> out, so the constructor
  finds no value for \<^verbatim>\<open>path\<close>: for every trajectory the call raises TypeError and
  returns no trajectory.
\<close>

theorem reverse_raises_TypeError:
  "reverse t = Inl (TypeError ''__init__() missing required positional argument: path'')"
  by (simp add: reverse_def Trajectory_init_def bind_args_def Trajectory_params_def
      Trajectory_defaults_def)

section \<open>The tool link\<close>

text \<open>
  C10. The property \<^verbatim>\<open>tool_link\<close> yields \<^verbatim>\<open>None\<close> whenever the link lookup inside
  it succeeds, and it never yields a link; so every grasp the generator \<^verbatim>\<open>gen_fn\<close>
  returns carries an attachment whose \<^verbatim>\<open>parent_link\<close> is \<^verbatim>\<open>None\<close>.
\<close>

theorem tool_link_is_None:
  "(link_from_name (robot s) PANDA_TOOL_TIP (client s) = Inr l \<longrightarrow> tool_link s = Inr None)
   \<and> (tool_link s = Inr v \<longrightarrow> v = None)
   \<and> (gen_fn q s obj = Inr g \<longrightarrow> parent_link (attachment g) = None)"
  by (auto simp: gen_fn_def tool_link_def split: sum.splits prod.splits)

theorem tool_link_is_None_witness:
  "link_from_name (robot example_sim) PANDA_TOOL_TIP (client example_sim) = Inr 11
   \<and> tool_link example_sim = Inr None
   \<and> (\<exists>g. gen_fn (\<lambda>e. unit_quat) example_sim 2 = Inr g \<and> parent_link (attachment g) = None)"
proof -
  have l: "link_from_name (robot example_sim) PANDA_TOOL_TIP (client example_sim) = Inr 11"
    by (simp add: link_from_name_def example_sim_def example_world_def PANDA_TOOL_TIP_def)
  have "get_group_limits GRIPPER_GROUP example_sim = Inr ([0, 0], [4 / 100, 4 / 100])"
    by (simp add: get_group_limits_def get_group_joints_def GRIPPER_GROUP_def PANDA_GROUPS_def
        get_custom_limits_def example_sim_def example_world_def)
  with l obtain g where g: "gen_fn (\<lambda>e. unit_quat) example_sim 2 = Inr g"
    by (simp add: gen_fn_def tool_link_def item_def)
  from tool_link_is_None[of example_sim 11 None "\<lambda>e. unit_quat" 2 g] l g show ?thesis
    by auto
qed

section \<open>The orchestrator: matching and the tolerance test\<close>

text \<open>
  An instance built by \<^verbatim>\<open>from_belief\<close> tracks one body per object state of the
  belief, so the handle \<^verbatim>\<open>movable_objects[belief_object_index]\<close> exists for the twin
  instance of a run.
\<close>

lemma add_objects_length:
  "length (fst (add_objects objs movable w)) = length movable + length objs"
  by (induction objs movable w rule: add_objects.induct) (simp_all split: prod.splits)

lemma send_movable_objects: "movable_objects (snd (send c s)) = movable_objects s"
  by (simp add: send_def split: option.splits)

lemma set_group_positions_movable_objects:
  "movable_objects (snd (set_group_positions grp ps s)) = movable_objects s"
  by (auto simp: set_group_positions_def send_movable_objects split: sum.splits)

lemma open_gripper_movable_objects:
  "movable_objects (snd (open_gripper args s)) = movable_objects s"
proof -
  have "movable_objects (snd (case set_group_positions GRIPPER_GROUP c s of
            (Inl e, s') \<Rightarrow> (Inl e, s')
          | (Inr u, s') \<Rightarrow> if real_robot s' then send HwOpenGripper s' else (Inr (), s')))
        = movable_objects s" for c
    using set_group_positions_movable_objects[of GRIPPER_GROUP c s]
    by (cases "set_group_positions GRIPPER_GROUP c s")
       (auto simp: send_movable_objects split: sum.splits)
  then show ?thesis
    by (auto simp: open_gripper_def split: sum.splits prod.splits)
qed

lemma close_gripper_movable_objects:
  "movable_objects (snd (close_gripper args s)) = movable_objects s"
proof -
  have "movable_objects (snd (case set_group_positions GRIPPER_GROUP c s of
            (Inl e, s') \<Rightarrow> (Inl e, s')
          | (Inr u, s') \<Rightarrow> if real_robot s' then send HwCloseGripper s' else (Inr (), s')))
        = movable_objects s" for c
    using set_group_positions_movable_objects[of GRIPPER_GROUP c s]
    by (cases "set_group_positions GRIPPER_GROUP c s")
       (auto simp: send_movable_objects split: sum.splits)
  then show ?thesis
    by (auto simp: close_gripper_def split: sum.splits prod.splits)
qed

lemma from_belief_tracks_every_object:
  assumes "from_belief load_pybullet w0 b = Inr inst"
  shows "length (movable_objects inst) = length (object_states b)"
proof -
  obtain robot_body w1 where l: "load_pybullet w0 = (robot_body, w1)"
    by (cases "load_pybullet w0")
  obtain tbl w2 where t: "create_box w1 = (tbl, w2)" by (cases "create_box w1")
  obtain movable w3 where a: "add_objects (object_states b) [] (set_pose tbl TABLE_POSE w2) = (movable, w3)"
    by (cases "add_objects (object_states b) [] (set_pose tbl TABLE_POSE w2)")
  from add_objects_length[of "object_states b" "[]" "set_pose tbl TABLE_POSE w2"] a
  have len: "length movable = length (object_states b)" by simp
  define inst0 where "inst0 = \<lparr>client = w3, robot = robot_body, table = tbl,
                             movable_objects = movable, components = [],
                             real_robot = False, sender = None\<rparr>"
  obtain r1 inst1 where g: "(if gripper_open b then open_gripper [] else close_gripper []) inst0 = (r1, inst1)"
    by (cases "(if gripper_open b then open_gripper [] else close_gripper []) inst0")
  have m1: "movable_objects inst1 = movable"
    using g open_gripper_movable_objects[of "[]" inst0] close_gripper_movable_objects[of "[]" inst0]
    by (auto simp: inst0_def split: if_splits)
  obtain r2 inst2 where p: "set_group_positions arm_group (robot_state b) inst1 = (r2, inst2)"
    by (cases "set_group_positions arm_group (robot_state b) inst1")
  from set_group_positions_movable_objects[of arm_group "robot_state b" inst1] p m1
  have m2: "movable_objects inst2 = movable" by simp
  from assms l t a g p have "inst = inst2"
    by (auto simp: from_belief_def inst0_def split: sum.splits)
  with m2 len show ?thesis by simp
qed

lemma first_index_props:
  "first_index objs cat = Some i \<Longrightarrow>
     i < length objs \<and> category (objs ! i) = cat \<and> (\<forall>j<i. category (objs ! j) \<noteq> cat)"
proof (induction objs arbitrary: i)
  case Nil
  then show ?case by simp
next
  case (Cons obj objs)
  show ?case
  proof (cases "category obj = cat")
    case True
    with Cons.prems show ?thesis by simp
  next
    case False
    with Cons.prems obtain i' where i': "first_index objs cat = Some i'" "i = Suc i'"
      by auto
    from Cons.IH[OF i'(1)] False i'(2) show ?thesis
      by (auto simp: nth_Cons split: nat.splits)
  qed
qed

lemma first_index_None:
  "first_index objs cat = None \<Longrightarrow> filter (\<lambda>(j, obj). category obj = cat) (zip ns objs) = []"
proof (induction objs arbitrary: ns)
  case Nil
  then show ?case by simp
next
  case (Cons obj objs)
  then show ?case by (cases ns) (auto split: if_splits)
qed

lemma first_index_Some:
  "first_index objs cat = Some i \<Longrightarrow> length ns = length objs \<Longrightarrow>
     \<exists>rest. filter (\<lambda>(j, obj). category obj = cat) (zip ns objs) = (ns ! i, objs ! i) # rest"
proof (induction objs arbitrary: ns i)
  case Nil
  then show ?case by simp
next
  case (Cons obj objs)
  from Cons.prems(2) obtain n ns' where ns: "ns = n # ns'" "length ns' = length objs"
    by (cases ns) auto
  show ?case
  proof (cases "category obj = cat")
    case True
    with Cons.prems(1) ns show ?thesis by simp
  next
    case False
    with Cons.prems(1) obtain i' where i': "first_index objs cat = Some i'" "i = Suc i'"
      by auto
    from Cons.IH[OF i'(1) ns(2)] False ns(1) i'(2) show ?thesis by simp
  qed
qed

lemma matches_None: "first_index objs cat = None \<Longrightarrow> matches objs cat = []"
  unfolding matches_def enumerate_py_def by (rule first_index_None)

lemma matches_Some:
  assumes "first_index objs cat = Some i"
  shows "\<exists>rest. matches objs cat = (i, objs ! i) # rest"
proof -
  from first_index_props[OF assms] have "i < length objs" by simp
  then have "[0..<length objs] ! i = i" by simp
  with first_index_Some[OF assms, of "[0..<length objs]"] show ?thesis
    unfolding matches_def enumerate_py_def by simp
qed

lemma matches_Cons_first:
  assumes "matches objs cat = (i, bo) # rest"
  shows "first_index objs cat = Some i \<and> bo = objs ! i"
proof (cases "first_index objs cat")
  case None
  from matches_None[OF None] assms show ?thesis by simp
next
  case (Some i')
  from matches_Some[OF Some] assms show ?thesis using Some by auto
qed


lemma goal_step_calls:
  "\<exists>cs. planner_calls (snd (goal_step d plan twin g st)) = planner_calls st @ cs
     \<and> (cs = [] \<or> (\<exists>so. cs = [(so, pose g)]))"
  by (auto simp: goal_step_def split: list.splits prod.splits sum.splits option.splits)

lemma goal_loop_calls:
  "\<exists>cs. planner_calls (snd (goal_loop d plan twin gs st)) = planner_calls st @ cs
     \<and> subseq (map snd cs) (map pose gs)"
proof (induction gs arbitrary: st)
  case Nil
  then show ?case by simp
next
  case (Cons g gs)
  obtain r st1 where step: "goal_step d plan twin g st = (r, st1)"
    by (cases "goal_step d plan twin g st")
  from goal_step_calls[of d plan twin g st] step obtain cs1 where
    cs1: "planner_calls st1 = planner_calls st @ cs1" "cs1 = [] \<or> (\<exists>so. cs1 = [(so, pose g)])"
    by auto
  then have sub1: "subseq (map snd cs1) [pose g]" by auto
  show ?case
  proof (cases r)
    case (Some e)
    with step cs1 sub1 show ?thesis
      by (auto intro!: exI[of _ cs1] split: if_splits)
  next
    case None
    from Cons.IH[of st1] obtain cs2 where
      cs2: "planner_calls (snd (goal_loop d plan twin gs st1)) = planner_calls st1 @ cs2"
        "subseq (map snd cs2) (map pose gs)"
      by auto
    from sub1 cs2(2) have "subseq (map snd (cs1 @ cs2)) ([pose g] @ map pose gs)"
      unfolding map_append by (rule list_emb_append_mono)
    with None step cs1(1) cs2(1) show ?thesis
      by (auto intro!: exI[of _ "cs1 @ cs2"])
  qed
qed

lemma goal_step_within:
  assumes "within_tolerance d (belief st) g"
  shows "goal_step d plan twin g st = (None, st)"
proof -
  from assms obtain i where i: "first_index (object_states (belief st)) (category g) = Some i"
    and tol: "\<not> exceeds_tolerance (d (pose (object_states (belief st) ! i)) (pose g))"
    by (auto simp: within_tolerance_def split: option.splits)
  from matches_Some[OF i] obtain rest where
    "matches (object_states (belief st)) (category g) = (i, object_states (belief st) ! i) # rest"
    by blast
  with tol show ?thesis
    by (auto simp: goal_step_def exceeds_tolerance_def split: prod.splits)
qed

lemma goal_loop_within:
  "\<forall>g \<in> set gs. within_tolerance d (belief st) g \<Longrightarrow> goal_loop d plan twin gs st = (None, st)"
  by (induction gs) (simp_all add: goal_step_within)

lemma goal_loop_append:
  "goal_loop d plan twin (xs @ ys) st =
     (case goal_loop d plan twin xs st of
        (Some e, st') \<Rightarrow> (Some e, st')
      | (None, st') \<Rightarrow> goal_loop d plan twin ys st')"
  by (induction xs arbitrary: st) (auto split: prod.splits option.splits)

lemma goal_loop_single: "goal_loop d plan twin [g] st = goal_step d plan twin g st"
  by (cases "goal_step d plan twin g st") (auto split: option.splits)

lemma goal_loop_take_Suc:
  assumes "k < length gs" and "goal_loop d plan twin (take k gs) st = (None, st_k)"
  shows "goal_loop d plan twin (take (Suc k) gs) st = goal_step d plan twin (gs ! k) st_k"
proof -
  from assms(1) have "take (Suc k) gs = take k gs @ [gs ! k]"
    by (simp add: take_Suc_conv_app_nth)
  then show ?thesis
    by (simp only: goal_loop_append assms(2) prod.case option.case goal_loop_single)
qed

lemma goal_loop_stops:
  assumes "goal_loop d plan twin (take k gs) st = (Some e, st_k)"
  shows "goal_loop d plan twin gs st = (Some e, st_k)"
proof -
  have "goal_loop d plan twin (take k gs @ drop k gs) st = (Some e, st_k)"
    unfolding goal_loop_append using assms by simp
  then show ?thesis by simp
qed

lemma map_category_set_pose:
  "map category (xs[i := (xs ! i)\<lparr>pose := p\<rparr>]) = map category xs"
  by (induction xs arbitrary: i) (auto simp: nth_Cons split: nat.splits)

lemma goal_step_categories:
  "map category (object_states (belief (snd (goal_step d plan twin g st)))) =
     map category (object_states (belief st))"
  by (auto simp: goal_step_def set_object_pose_def map_category_set_pose
      split: list.splits prod.splits sum.splits option.splits)

lemma goal_loop_categories:
  "map category (object_states (belief (snd (goal_loop d plan twin gs st)))) =
     map category (object_states (belief st))"
proof (induction gs arbitrary: st)
  case Nil
  then show ?case by simp
next
  case (Cons g gs)
  obtain r st1 where step: "goal_step d plan twin g st = (r, st1)"
    by (cases "goal_step d plan twin g st")
  from goal_step_categories[of d plan twin g st] step
  have "map category (object_states (belief st1)) = map category (object_states (belief st))"
    by simp
  with step Cons.IH[of st1] show ?case by (cases r) simp_all
qed

lemma first_index_categories:
  "map category xs = map category ys \<Longrightarrow> first_index xs cat = first_index ys cat"
proof (induction xs arbitrary: ys)
  case Nil
  then show ?case by simp
next
  case (Cons x xs)
  then obtain y ys' where "ys = y # ys'" "category x = category y" "map category xs = map category ys'"
    by (cases ys) auto
  with Cons.IH[of ys'] show ?case by simp
qed

lemma goal_step_by_first_index:
  assumes fi: "first_index (object_states (belief st)) (category g) = Some i"
    and tw: "length (movable_objects twin) = length (object_states (belief st))"
  shows "planner_calls (snd (goal_step d plan twin g st)) =
           planner_calls st @
             (if exceeds_tolerance (d (pose (object_states (belief st) ! i)) (pose g))
              then [(movable_objects twin ! i, pose g)] else [])"
    and "\<not> exceeds_tolerance (d (pose (object_states (belief st) ! i)) (pose g)) \<Longrightarrow>
           goal_step d plan twin g st = (None, st)"
proof -
  from matches_Some[OF fi] obtain rest where
    mm: "matches (object_states (belief st)) (category g) = (i, object_states (belief st) ! i) # rest"
    by blast
  from first_index_props[OF fi] tw have it: "item (movable_objects twin) i = Inr (movable_objects twin ! i)"
    by (simp add: item_def)
  show "planner_calls (snd (goal_step d plan twin g st)) =
           planner_calls st @
             (if exceeds_tolerance (d (pose (object_states (belief st) ! i)) (pose g))
              then [(movable_objects twin ! i, pose g)] else [])"
    using mm it
    by (auto simp: goal_step_def exceeds_tolerance_def split: prod.splits sum.splits option.splits)
  show "\<not> exceeds_tolerance (d (pose (object_states (belief st) ! i)) (pose g)) \<Longrightarrow>
           goal_step d plan twin g st = (None, st)"
    using mm by (auto simp: goal_step_def exceeds_tolerance_def split: prod.splits)
qed

lemma goal_loop_each_object:
  assumes tw: "length (movable_objects twin) = length (object_states (belief st))"
    and k: "k < length gs"
    and pre: "goal_loop d plan twin (take k gs) st = (None, st_k)"
  shows "goal_loop d plan twin (take (Suc k) gs) st = goal_step d plan twin (gs ! k) st_k
     \<and> length (object_states (belief st_k)) = length (object_states (belief st))
     \<and> (\<forall>i. first_index (object_states (belief st)) (category (gs ! k)) = Some i \<longrightarrow>
          (\<exists>rest. matches (object_states (belief st_k)) (category (gs ! k)) =
                    (i, object_states (belief st_k) ! i) # rest)
          \<and> planner_calls (snd (goal_loop d plan twin (take (Suc k) gs) st)) =
              planner_calls st_k @
                (if exceeds_tolerance (d (pose (object_states (belief st_k) ! i)) (pose (gs ! k)))
                 then [(movable_objects twin ! i, pose (gs ! k))] else [])
          \<and> (\<not> exceeds_tolerance (d (pose (object_states (belief st_k) ! i)) (pose (gs ! k))) \<longrightarrow>
               goal_loop d plan twin (take (Suc k) gs) st = (None, st_k)))"
proof -
  note step = goal_loop_take_Suc[OF k pre]
  from goal_loop_categories[of d plan twin "take k gs" st] pre
  have cats: "map category (object_states (belief st_k)) = map category (object_states (belief st))"
    by simp
  then have len: "length (object_states (belief st_k)) = length (object_states (belief st))"
    by (rule map_eq_imp_length_eq)
  with tw have tw_k: "length (movable_objects twin) = length (object_states (belief st_k))"
    by simp
  {
    fix i
    assume "first_index (object_states (belief st)) (category (gs ! k)) = Some i"
    with first_index_categories[OF cats, of "category (gs ! k)"]
    have fi: "first_index (object_states (belief st_k)) (category (gs ! k)) = Some i" by simp
    note matches_Some[OF fi] goal_step_by_first_index[OF fi tw_k, of d plan]
  }
  with step len show ?thesis by auto
qed


lemmas example_defs =
  example_goal_def dummy_perception_def example_sim_def example_world_def start_def
  set_object_pose_def multiply_def Pose_def Point_def TABLE_POSE_def unit_quat_def unit_pose_def
  example_planner_def failing_planner_def flat_planner_def example_subplan_def
  example_trajectory_def example_attachment_def example_start_def red_goal_def blue_goal_def

text \<open>The example goal is the goal \<^verbatim>\<open>dummy_get_goal\<close> derives from the shipped belief.\<close>

lemma dummy_goal_is_example_goal: "dummy_get_goal dummy_perception = Inr example_goal"
  by (simp add: dummy_get_goal_def item_def example_goal_def dummy_perception_def)

lemma example_red_box_matches: "matches (object_states (belief (start dummy_perception))) (category (object_states example_goal ! 0)) \<noteq> []"
  by (simp add: example_defs matches_def enumerate_py_def)

lemma example_twin_tracks_belief: "length (movable_objects example_sim) = length (object_states (belief (start dummy_perception)))"
  by (simp add: example_defs)

lemma example_red_box_planned: "planner_calls (snd (goal_step example_distance example_planner example_sim
            (object_states example_goal ! 0) (start dummy_perception))) =
        [(2, pose (object_states example_goal ! 0))]"
  by (simp add: example_defs goal_step_def matches_def enumerate_py_def item_def
        final_configuration_def last_item_def)

lemma example_belief_satisfies_itself: "\<forall>g' \<in> set (object_states dummy_perception). within_tolerance example_distance (belief (start dummy_perception)) g'"
  by (simp add: example_defs within_tolerance_def exceeds_tolerance_def)

lemma example_red_then_blue:
  "goal_loop example_distance example_planner example_sim [red_goal] example_start =
     (None, after_red)"
  by (simp add: goal_step_def matches_def enumerate_py_def item_def final_configuration_def
      last_item_def after_red_def example_defs)

lemma example_first_indices:
  "first_index (object_states (belief example_start)) (category red_goal) = Some 0"
  "first_index (object_states (belief example_start)) (category blue_goal) = Some 1"
  by (simp_all add: example_defs)

lemma example_goal_objects: "object_states example_goal = [red_goal, blue_goal]"
  by (simp add: example_defs)

lemma example_blue_exceeds_after_red:
  "exceeds_tolerance (example_distance (pose (object_states (belief after_red) ! 1)) (pose blue_goal))"
  by (simp add: after_red_def example_defs exceeds_tolerance_def)

text \<open>
  C2. With at least one belief object of the goal object's category, and a twin instance
  that tracks as many objects as the belief holds, the element \<^verbatim>\<open>[0]\<close> of the
  comprehension is the first belief object of that category (no earlier one has it),
  and the loop body calls the planner, once, for that object's handle and the goal
  pose, if and only if the position error or the orientation error exceeds 1e-2;
  otherwise the body changes nothing. The loop runs that body on the goal objects in
  list order: whenever it has passed the first \<open>k\<close> goal objects and reached a state,
  its result on the first \<open>k + 1\<close> is the body on goal object \<open>k\<close> in that state, the
  belief there has the objects and categories it started with, and so the planner is
  called for goal object \<open>k\<close> if and only if its error against the current belief exceeds
  the tolerance; an exception in a body ends the loop with that exception. A loop over
  goal objects that are all within tolerance returns the state it started in, and in
  every run the placements the planner is called with follow the order of the goal list.
\<close>

theorem goal_matching_and_tolerance:
  assumes m: "matches (object_states (belief st)) (category g) \<noteq> []"
    and tw: "length (movable_objects twin) = length (object_states (belief st))"
  shows "(\<exists>i rest.
           matches (object_states (belief st)) (category g) = (i, object_states (belief st) ! i) # rest
           \<and> i < length (object_states (belief st))
           \<and> category (object_states (belief st) ! i) = category g
           \<and> (\<forall>j<i. category (object_states (belief st) ! j) \<noteq> category g)
           \<and> planner_calls (snd (goal_step d plan twin g st)) =
               planner_calls st @
                 (if exceeds_tolerance (d (pose (object_states (belief st) ! i)) (pose g))
                  then [(movable_objects twin ! i, pose g)] else [])
           \<and> (\<not> exceeds_tolerance (d (pose (object_states (belief st) ! i)) (pose g)) \<longrightarrow>
                goal_step d plan twin g st = (None, st))
           \<and> ((\<forall>g' \<in> set gs. within_tolerance d (belief st) g') \<longrightarrow>
                goal_loop d plan twin gs st = (None, st))
           \<and> (\<exists>cs. planner_calls (snd (goal_loop d plan twin gs st)) = planner_calls st @ cs
                 \<and> subseq (map snd cs) (map pose gs)))
     \<and> goal_loop d plan twin [] st = (None, st)
     \<and> (\<forall>k st_k. k < length gs \<and> goal_loop d plan twin (take k gs) st = (None, st_k) \<longrightarrow>
           goal_loop d plan twin (take (Suc k) gs) st = goal_step d plan twin (gs ! k) st_k
           \<and> length (object_states (belief st_k)) = length (object_states (belief st))
           \<and> (\<forall>i. first_index (object_states (belief st)) (category (gs ! k)) = Some i \<longrightarrow>
                (\<exists>rest. matches (object_states (belief st_k)) (category (gs ! k)) =
                          (i, object_states (belief st_k) ! i) # rest)
                \<and> planner_calls (snd (goal_loop d plan twin (take (Suc k) gs) st)) =
                    planner_calls st_k @
                      (if exceeds_tolerance
                            (d (pose (object_states (belief st_k) ! i)) (pose (gs ! k)))
                       then [(movable_objects twin ! i, pose (gs ! k))] else [])
                \<and> (\<not> exceeds_tolerance
                         (d (pose (object_states (belief st_k) ! i)) (pose (gs ! k))) \<longrightarrow>
                     goal_loop d plan twin (take (Suc k) gs) st = (None, st_k))))
     \<and> (\<forall>k e st_k. goal_loop d plan twin (take k gs) st = (Some e, st_k) \<longrightarrow>
           goal_loop d plan twin gs st = (Some e, st_k))"
proof (intro conjI)
  obtain i bo rest where mm: "matches (object_states (belief st)) (category g) = (i, bo) # rest"
    using m by (cases "matches (object_states (belief st)) (category g)") auto
  from matches_Cons_first[OF mm] have fi: "first_index (object_states (belief st)) (category g) = Some i"
    and bo: "bo = object_states (belief st) ! i" by auto
  note props = first_index_props[OF fi]
  note step = goal_step_by_first_index[OF fi tw, of d plan]
  from mm bo props step goal_loop_within[of gs d st plan twin] goal_loop_calls[of d plan twin gs st]
  show "\<exists>i rest.
           matches (object_states (belief st)) (category g) = (i, object_states (belief st) ! i) # rest
           \<and> i < length (object_states (belief st))
           \<and> category (object_states (belief st) ! i) = category g
           \<and> (\<forall>j<i. category (object_states (belief st) ! j) \<noteq> category g)
           \<and> planner_calls (snd (goal_step d plan twin g st)) =
               planner_calls st @
                 (if exceeds_tolerance (d (pose (object_states (belief st) ! i)) (pose g))
                  then [(movable_objects twin ! i, pose g)] else [])
           \<and> (\<not> exceeds_tolerance (d (pose (object_states (belief st) ! i)) (pose g)) \<longrightarrow>
                goal_step d plan twin g st = (None, st))
           \<and> ((\<forall>g' \<in> set gs. within_tolerance d (belief st) g') \<longrightarrow>
                goal_loop d plan twin gs st = (None, st))
           \<and> (\<exists>cs. planner_calls (snd (goal_loop d plan twin gs st)) = planner_calls st @ cs
                 \<and> subseq (map snd cs) (map pose gs))"
    by blast
next
  show "goal_loop d plan twin [] st = (None, st)" by simp
next
  show "\<forall>k st_k. k < length gs \<and> goal_loop d plan twin (take k gs) st = (None, st_k) \<longrightarrow>
           goal_loop d plan twin (take (Suc k) gs) st = goal_step d plan twin (gs ! k) st_k
           \<and> length (object_states (belief st_k)) = length (object_states (belief st))
           \<and> (\<forall>i. first_index (object_states (belief st)) (category (gs ! k)) = Some i \<longrightarrow>
                (\<exists>rest. matches (object_states (belief st_k)) (category (gs ! k)) =
                          (i, object_states (belief st_k) ! i) # rest)
                \<and> planner_calls (snd (goal_loop d plan twin (take (Suc k) gs) st)) =
                    planner_calls st_k @
                      (if exceeds_tolerance
                            (d (pose (object_states (belief st_k) ! i)) (pose (gs ! k)))
                       then [(movable_objects twin ! i, pose (gs ! k))] else [])
                \<and> (\<not> exceeds_tolerance
                         (d (pose (object_states (belief st_k) ! i)) (pose (gs ! k))) \<longrightarrow>
                     goal_loop d plan twin (take (Suc k) gs) st = (None, st_k)))"
    using goal_loop_each_object[OF tw, of _ gs d plan] by blast
next
  show "\<forall>k e st_k. goal_loop d plan twin (take k gs) st = (Some e, st_k) \<longrightarrow>
           goal_loop d plan twin gs st = (Some e, st_k)"
    using goal_loop_stops by blast
qed

theorem goal_matching_and_tolerance_witness:
  "matches (object_states (belief (start dummy_perception)))
      (category (object_states example_goal ! 0)) \<noteq> []
   \<and> length (movable_objects example_sim) = length (object_states (belief (start dummy_perception)))
   \<and> planner_calls (snd (goal_step example_distance example_planner example_sim
            (object_states example_goal ! 0) (start dummy_perception))) =
        [(2, pose (object_states example_goal ! 0))]
   \<and> goal_loop example_distance example_planner example_sim (object_states dummy_perception)
        (start dummy_perception) = (None, start dummy_perception)
   \<and> goal_loop example_distance example_planner example_sim [red_goal] example_start =
        goal_step example_distance example_planner example_sim red_goal example_start
   \<and> goal_loop example_distance example_planner example_sim [red_goal] example_start =
        (None, after_red)
   \<and> goal_loop example_distance example_planner example_sim (object_states example_goal)
        example_start =
        goal_step example_distance example_planner example_sim blue_goal after_red
   \<and> planner_calls (snd (goal_loop example_distance example_planner example_sim
        (object_states example_goal) example_start)) = [(2, pose red_goal), (3, pose blue_goal)]"
proof -
  have m: "matches (object_states (belief example_start)) (category red_goal) \<noteq> []"
    using example_red_box_matches by (simp add: example_start_def red_goal_def)
  have tw: "length (movable_objects example_sim) = length (object_states (belief example_start))"
    using example_twin_tracks_belief by (simp add: example_start_def)
  note c2 = goal_matching_and_tolerance[OF m tw, of example_distance example_planner]
  from c2[of "object_states dummy_perception"]
  have "(\<forall>g' \<in> set (object_states dummy_perception).
           within_tolerance example_distance (belief example_start) g') \<longrightarrow>
        goal_loop example_distance example_planner example_sim (object_states dummy_perception)
          example_start = (None, example_start)"
    by blast
  with example_belief_satisfies_itself
  have noop: "goal_loop example_distance example_planner example_sim (object_states dummy_perception)
        (start dummy_perception) = (None, start dummy_perception)"
    unfolding example_start_def by blast
  from c2[of "object_states example_goal"]
  have loop: "\<And>k st_k. k < length (object_states example_goal) \<Longrightarrow>
      goal_loop example_distance example_planner example_sim (take k (object_states example_goal))
        example_start = (None, st_k) \<Longrightarrow>
      goal_loop example_distance example_planner example_sim (take (Suc k) (object_states example_goal))
        example_start = goal_step example_distance example_planner example_sim
          (object_states example_goal ! k) st_k
      \<and> (\<forall>i. first_index (object_states (belief example_start))
                 (category (object_states example_goal ! k)) = Some i \<longrightarrow>
            planner_calls (snd (goal_loop example_distance example_planner example_sim
                (take (Suc k) (object_states example_goal)) example_start)) =
              planner_calls st_k @
                (if exceeds_tolerance
                      (example_distance (pose (object_states (belief st_k) ! i))
                         (pose (object_states example_goal ! k)))
                 then [(movable_objects example_sim ! i, pose (object_states example_goal ! k))]
                 else []))"
    by blast
  from loop[of 0 example_start]
  have first: "goal_loop example_distance example_planner example_sim [red_goal] example_start =
        goal_step example_distance example_planner example_sim red_goal example_start"
    by (simp add: example_goal_objects)
  have t1: "take 1 (object_states example_goal) = [red_goal]"
    and t2: "take (Suc 1) (object_states example_goal) = object_states example_goal"
    and n1: "object_states example_goal ! 1 = blue_goal"
    and len: "1 < length (object_states example_goal)"
    by (simp_all add: example_goal_objects)
  have handle: "movable_objects example_sim ! 1 = 3"
    by (simp add: example_sim_def)
  have calls: "planner_calls after_red = [(2, pose red_goal)]"
    by (simp add: after_red_def)
  from example_red_then_blue have pre:
    "goal_loop example_distance example_planner example_sim (take 1 (object_states example_goal))
       example_start = (None, after_red)"
    by (simp only: t1)
  from loop[OF len pre] have step2:
    "goal_loop example_distance example_planner example_sim (object_states example_goal)
        example_start =
        goal_step example_distance example_planner example_sim blue_goal after_red"
    and calls2: "\<forall>i. first_index (object_states (belief example_start)) (category blue_goal) = Some i \<longrightarrow>
            planner_calls (snd (goal_loop example_distance example_planner example_sim
                (object_states example_goal) example_start)) =
              planner_calls after_red @
                (if exceeds_tolerance
                      (example_distance (pose (object_states (belief after_red) ! i))
                         (pose blue_goal))
                 then [(movable_objects example_sim ! i, pose blue_goal)]
                 else [])"
    unfolding t2 n1 by blast+
  from calls2 example_first_indices(2) have
    "planner_calls (snd (goal_loop example_distance example_planner example_sim
        (object_states example_goal) example_start)) =
       planner_calls after_red @
                (if exceeds_tolerance
                      (example_distance (pose (object_states (belief after_red) ! 1))
                         (pose blue_goal))
                 then [(movable_objects example_sim ! 1, pose blue_goal)]
                 else [])"
    by blast
  then have "planner_calls (snd (goal_loop example_distance example_planner example_sim
        (object_states example_goal) example_start)) = [(2, pose red_goal), (3, pose blue_goal)]"
    by (simp only: example_blue_exceeds_after_red if_True handle calls append.simps)
  with step2 have second: "goal_loop example_distance example_planner example_sim (object_states example_goal)
        example_start =
        goal_step example_distance example_planner example_sim blue_goal after_red
      \<and> planner_calls (snd (goal_loop example_distance example_planner example_sim
        (object_states example_goal) example_start)) = [(2, pose red_goal), (3, pose blue_goal)]"
    by (rule conjI)
  from example_red_box_matches example_twin_tracks_belief example_red_box_planned noop first
    example_red_then_blue second
  show ?thesis by (intro conjI) (erule conjunct1 conjunct2 | assumption)+
qed

section \<open>The orchestrator: a sub-plan found\<close>

lemma two_level_shape:
  assumes "two_level sp"
  obtains cs n cs' n' t where "sp = Sequence (cs @ [Sequence (cs' @ [Traj t]) n']) n" "path t \<noteq> []"
proof -
  from assms obtain xs n where sp: "sp = Sequence xs n" by (cases sp) auto
  with assms have xs: "xs \<noteq> []" by simp
  from assms sp xs obtain ys n' where l1: "last xs = Sequence ys n'" "ys \<noteq> []"
    by (cases "last xs") auto
  from assms sp xs l1 obtain t where l2: "last ys = Traj t" "path t \<noteq> []"
    by (cases "last ys") auto
  from xs l1(1) have "xs = butlast xs @ [Sequence ys n']" by (metis append_butlast_last_id)
  moreover from l1(2) l2(1) have "ys = butlast ys @ [Traj t]" by (metis append_butlast_last_id)
  ultimately have "sp = Sequence (butlast xs @ [Sequence (butlast ys @ [Traj t]) n']) n"
    using sp by simp
  with l2(2) that show thesis by blast
qed

lemma final_configuration_two_level:
  "final_configuration (Sequence (cs @ [Sequence (cs' @ [Traj t]) n']) n) = last_item (path t)"
  by (simp add: final_configuration_def last_item_def)

lemma motion_segments_two_level:
  "motion_segments (Sequence (cs @ [Sequence (cs' @ [Traj t]) n']) n) =
     concat (map trajectory_of (leaves cs)) @ concat (map trajectory_of (leaves cs')) @ [t]"
  by (simp add: motion_segments_def leaves_append)

lemma example_red_match:
  "matches (object_states (belief example_start)) (category red_goal) =
     [(0, object_states dummy_perception ! 0)]"
  by (simp add: example_defs matches_def enumerate_py_def)

lemma example_red_exceeds:
  "exceeds_tolerance (example_distance (pose (object_states dummy_perception ! 0)) (pose red_goal))"
  by (simp add: example_defs exceeds_tolerance_def)

lemma example_red_handle: "item (movable_objects example_sim) 0 = Inr 2"
  by (simp add: example_defs item_def)

lemma example_subplan_two_level: "two_level (example_subplan 2)"
  by (simp add: example_defs)

text \<open>
  C3 (amended). \<^verbatim>\<open>main\<close> reads the new joint state as
  \<^verbatim>\<open>subplan.commands[-1].commands[-1].path[-1]\<close>. When the planner returns a sub-plan
  that is a Sequence whose last command is a Sequence whose last command is a Trajectory
  with a waypoint, that trajectory is the last motion segment of the sub-plan and the
  loop body sets the matched belief object's pose to the goal pose, the belief's joint
  state to the last waypoint of that trajectory, appends the sub-plan to
  \<^verbatim>\<open>plan_components\<close>, and leaves every other object state, the matched object's
  factory and category, and \<^verbatim>\<open>gripper_open\<close> as they were.
\<close>

theorem planning_success_commits:
  assumes m: "matches (object_states (belief st)) (category g) = (i, bo) # rest"
    and ex: "exceeds_tolerance (d (pose bo) (pose g))"
    and it: "item (movable_objects twin) i = Inr so"
    and pl: "plan (belief st) so (pose g) = (Some sp, stats)"
    and tl: "two_level sp"
  shows "motion_segments sp \<noteq> [] \<and> path (last (motion_segments sp)) \<noteq> []
     \<and> goal_step d plan twin g st =
         (None,
          st\<lparr>planner_calls := planner_calls st @ [(so, pose g)],
             belief :=
               \<lparr>object_states =
                  (object_states (belief st))[i := (object_states (belief st) ! i)\<lparr>pose := pose g\<rparr>],
                robot_state = last (path (last (motion_segments sp))),
                gripper_open = gripper_open (belief st)\<rparr>,
             plan_components := plan_components st @ [sp]\<rparr>)"
proof -
  from tl obtain cs n cs' n' t where
    sp: "sp = Sequence (cs @ [Sequence (cs' @ [Traj t]) n']) n" and t: "path t \<noteq> []"
    by (rule two_level_shape)
  have ms: "motion_segments sp \<noteq> []" "last (motion_segments sp) = t"
    by (simp_all add: sp motion_segments_two_level)
  from t have fc: "final_configuration sp = Inr (last (path t))"
    by (simp add: sp final_configuration_two_level last_item_def)
  have "goal_step d plan twin g st =
         (None,
          st\<lparr>planner_calls := planner_calls st @ [(so, pose g)],
             belief := (set_object_pose i (pose g) (belief st))\<lparr>robot_state := last (path t)\<rparr>,
             plan_components := plan_components st @ [sp]\<rparr>)"
    using m ex it pl fc by (auto simp: goal_step_def exceeds_tolerance_def split: prod.splits)
  moreover have "(set_object_pose i (pose g) (belief st))\<lparr>robot_state := last (path t)\<rparr> =
      \<lparr>object_states =
                  (object_states (belief st))[i := (object_states (belief st) ! i)\<lparr>pose := pose g\<rparr>],
                robot_state = last (path t),
                gripper_open = gripper_open (belief st)\<rparr>"
    by (simp add: set_object_pose_def)
  ultimately show ?thesis using ms t by simp
qed


theorem planning_success_commits_witness:
  "matches (object_states (belief example_start)) (category red_goal) =
     [(0, object_states dummy_perception ! 0)]
   \<and> exceeds_tolerance (example_distance (pose (object_states dummy_perception ! 0)) (pose red_goal))
   \<and> item (movable_objects example_sim) 0 = Inr 2
   \<and> example_planner (belief example_start) 2 (pose red_goal) =
       (Some (example_subplan 2), [(''attempts'', 1)])
   \<and> two_level (example_subplan 2)
   \<and> fst (goal_step example_distance example_planner example_sim red_goal example_start) = None
   \<and> robot_state (belief (snd (goal_step example_distance example_planner example_sim red_goal
         example_start))) = [1, 0, 0, 0, 0, 0, 0]
   \<and> pose (object_states (belief (snd (goal_step example_distance example_planner example_sim
         red_goal example_start))) ! 0) = pose red_goal
   \<and> plan_components (snd (goal_step example_distance example_planner example_sim red_goal
         example_start)) = [example_subplan 2]"
proof -
  have pl: "example_planner (belief example_start) 2 (pose red_goal) =
       (Some (example_subplan 2), [(''attempts'', 1)])"
    by (simp add: example_planner_def)
  have seg: "last (motion_segments (example_subplan 2)) = example_trajectory"
    by (simp add: motion_segments_def example_subplan_def)
  have wp: "last (path example_trajectory) = [1, 0, 0, 0, 0, 0, 0]"
    by (simp add: example_trajectory_def)
  have len: "object_states (belief example_start) \<noteq> []"
    by (simp add: example_defs)
  from planning_success_commits[where d = example_distance and plan = example_planner,
      OF example_red_match example_red_exceeds example_red_handle pl example_subplan_two_level]
  have "goal_step example_distance example_planner example_sim red_goal example_start =
         (None,
          example_start\<lparr>planner_calls := planner_calls example_start @ [(2, pose red_goal)],
             belief :=
               \<lparr>object_states =
                  (object_states (belief example_start))[0 := (object_states (belief example_start) ! 0)\<lparr>pose := pose red_goal\<rparr>],
                robot_state = last (path (last (motion_segments (example_subplan 2)))),
                gripper_open = gripper_open (belief example_start)\<rparr>,
             plan_components := plan_components example_start @ [example_subplan 2]\<rparr>)"
    by simp
  then show ?thesis
    using example_red_match example_red_exceeds example_red_handle pl example_subplan_two_level
      seg wp len
    by (simp add: example_start_def start_def)
qed

text \<open>
  For a sub-plan of another shape the claim as stated fails: a planner that returns the
  flat \<^verbatim>\<open>Sequence([trajectory])\<close> has found a plan whose last motion segment ends in
  \<open>[1, 0, 0, 0, 0, 0, 0]\<close>, and the loop body raises AttributeError after it has set
  the object's pose, with the joint state still the old one and nothing appended.
\<close>

theorem flat_subplan_counterexample:
  "flat_planner (belief example_start) 2 (pose red_goal) =
     (Some (Sequence [Traj example_trajectory] None), [(''attempts'', 1)])
   \<and> last (motion_segments (Sequence [Traj example_trajectory] None)) = example_trajectory
   \<and> last (path example_trajectory) = [1, 0, 0, 0, 0, 0, 0]
   \<and> fst (goal_step example_distance flat_planner example_sim red_goal example_start) =
       Some (AttributeError ''commands'')
   \<and> robot_state (belief (snd (goal_step example_distance flat_planner example_sim red_goal
         example_start))) = DEFAULT_JOINT_POSITIONS
   \<and> DEFAULT_JOINT_POSITIONS \<noteq> [1, 0, 0, 0, 0, 0, 0]
   \<and> plan_components (snd (goal_step example_distance flat_planner example_sim red_goal
         example_start)) = []
   \<and> pose (object_states (belief (snd (goal_step example_distance flat_planner example_sim
         red_goal example_start))) ! 0) = pose red_goal"
proof -
  have step: "goal_step example_distance flat_planner example_sim red_goal example_start =
      (Some (AttributeError ''commands''),
       example_start\<lparr>planner_calls := planner_calls example_start @ [(2, pose red_goal)],
         belief := set_object_pose 0 (pose red_goal) (belief example_start)\<rparr>)"
    using example_red_match example_red_exceeds example_red_handle
    by (auto simp: goal_step_def exceeds_tolerance_def flat_planner_def final_configuration_def
        last_item_def split: prod.splits)
  have seg: "last (motion_segments (Sequence [Traj example_trajectory] None)) = example_trajectory"
    by (simp add: motion_segments_def)
  have wp: "last (path example_trajectory) = [1, 0, 0, 0, 0, 0, 0]"
    by (simp add: example_trajectory_def)
  have d: "DEFAULT_JOINT_POSITIONS \<noteq> [1, 0, 0, 0, 0, 0, 0]"
    by (simp add: DEFAULT_JOINT_POSITIONS_def)
  show ?thesis
    unfolding step using seg wp d
    by (simp add: flat_planner_def example_start_def start_def set_object_pose_def
        dummy_perception_def)
qed

section \<open>The orchestrator: no sub-plan found\<close>

lemma goal_step_no_plan:
  assumes m: "matches (object_states (belief st)) (category g) = (i, bo) # rest"
    and ex: "exceeds_tolerance (d (pose bo) (pose g))"
    and it: "item (movable_objects twin) i = Inr so"
    and pl: "plan (belief st) so (pose g) = (None, stats)"
  shows "goal_step d plan twin g st =
     (Some (SystemExit None),
      st\<lparr>planner_calls := planner_calls st @ [(so, pose g)],
         printed := printed st @ [Text ''Planning failure'', Json stats]\<rparr>)"
  using assms by (auto simp: goal_step_def exceeds_tolerance_def split: prod.splits)

lemma goal_loop_no_plan:
  assumes pre: "goal_loop d plan twin earlier st0 = (None, st)"
    and m: "matches (object_states (belief st)) (category g) = (i, bo) # rest"
    and ex: "exceeds_tolerance (d (pose bo) (pose g))"
    and it: "item (movable_objects twin) i = Inr so"
    and pl: "plan (belief st) so (pose g) = (None, stats)"
  shows "goal_loop d plan twin (earlier @ g # later) st0 =
     (Some (SystemExit None),
      st\<lparr>planner_calls := planner_calls st @ [(so, pose g)],
         printed := printed st @ [Text ''Planning failure'', Json stats]\<rparr>)"
  unfolding goal_loop_append pre
  by (simp add: goal_step_no_plan[where d = d and plan = plan, OF m ex it pl])

text \<open>
  The only place where \<^verbatim>\<open>main\<close> hands a plan to the primary instance comes after
  the loop, and it raises: a run whose loop passes every goal object ends with
  AttributeError and the primary instance as it was.
\<close>

lemma main_never_executes:
  assumes "goal_loop d plan twin (object_states gb) (start b) = (None, st)"
  shows "main d plan twin sim b gb = (Some (AttributeError ''execute_command''), st, sim)"
  using assms by (simp add: main_def execute_command_def)

lemma example_goal_list: "object_states example_goal = [red_goal] @ blue_goal # []"
  by (simp add: example_defs)

lemma example_red_done:
  "goal_loop example_distance failing_planner example_sim [red_goal] (start dummy_perception) =
     (None, after_red)"
  by (simp add: goal_step_def matches_def enumerate_py_def item_def final_configuration_def
      last_item_def after_red_def example_defs)

lemma example_blue_match:
  "matches (object_states (belief after_red)) (category blue_goal) =
     [(1, object_states dummy_perception ! 1)]"
  by (simp add: after_red_def example_defs matches_def enumerate_py_def)

lemma example_blue_exceeds:
  "exceeds_tolerance (example_distance (pose (object_states dummy_perception ! 1)) (pose blue_goal))"
  by (simp add: example_defs exceeds_tolerance_def)

lemma example_blue_handle: "item (movable_objects example_sim) 1 = Inr 3"
  by (simp add: example_defs item_def)

lemma example_blue_no_plan:
  "failing_planner (belief after_red) 3 (pose blue_goal) = (None, [(''attempts'', 10)])"
  by (simp add: failing_planner_def)

lemma example_run_fails:
  "main example_distance failing_planner example_sim example_sim dummy_perception example_goal =
     (Some (SystemExit None),
      after_red\<lparr>planner_calls := planner_calls after_red @ [(3, pose blue_goal)],
        printed := printed after_red @ [Text ''Planning failure'', Json [(''attempts'', 10)]]\<rparr>,
      example_sim)"
  using goal_loop_no_plan[where d = example_distance and plan = failing_planner,
      OF example_red_done example_blue_match example_blue_exceeds example_blue_handle
        example_blue_no_plan, of "[]"]
  by (simp add: main_def example_goal_list)

text \<open>
  C1 (amended). When the planner returns no sub-plan for a goal object whose error
  exceeds the tolerance, after the loop has passed the earlier goal objects, the run
  prints \<^verbatim>\<open>Planning failure\<close> and the statistics and ends by \<^verbatim>\<open>sys.exit()\<close>, that
  is with \<^verbatim>\<open>SystemExit(None)\<close> and exit status 0. The primary instance is returned
  as it was given (no sub-plan of an earlier object is executed), the later goal objects
  are not looked at, and the belief is the one the earlier objects left: their updates
  are kept.
\<close>

theorem planning_failure_exits:
  assumes goals: "object_states gb = earlier @ g # later"
    and pre: "goal_loop d plan twin earlier (start b) = (None, st)"
    and m: "matches (object_states (belief st)) (category g) = (i, bo) # rest"
    and ex: "exceeds_tolerance (d (pose bo) (pose g))"
    and it: "item (movable_objects twin) i = Inr so"
    and pl: "plan (belief st) so (pose g) = (None, stats)"
  shows "main d plan twin sim b gb =
           (Some (SystemExit None),
            st\<lparr>planner_calls := planner_calls st @ [(so, pose g)],
               printed := printed st @ [Text ''Planning failure'', Json stats]\<rparr>,
            sim)
         \<and> exit_status (fst (main d plan twin sim b gb)) = 0"
  using goal_loop_no_plan[where d = d and plan = plan, OF pre m ex it pl, of later]
  by (simp add: main_def goals)

theorem planning_failure_exits_witness:
  "object_states example_goal = [red_goal] @ blue_goal # []
   \<and> goal_loop example_distance failing_planner example_sim [red_goal] (start dummy_perception) =
       (None, after_red)
   \<and> matches (object_states (belief after_red)) (category blue_goal) =
       [(1, object_states dummy_perception ! 1)]
   \<and> exceeds_tolerance (example_distance (pose (object_states dummy_perception ! 1)) (pose blue_goal))
   \<and> item (movable_objects example_sim) 1 = Inr 3
   \<and> failing_planner (belief after_red) 3 (pose blue_goal) = (None, [(''attempts'', 10)])
   \<and> main example_distance failing_planner example_sim example_sim dummy_perception example_goal =
       (Some (SystemExit None),
        \<lparr>belief =
           (set_object_pose 0 (pose red_goal) dummy_perception)\<lparr>robot_state := [1, 0, 0, 0, 0, 0, 0]\<rparr>,
         plan_components = [example_subplan 2],
         printed = [Text ''Planning failure'', Json [(''attempts'', 10)]],
         planner_calls = [(2, pose red_goal), (3, pose blue_goal)]\<rparr>,
        example_sim)
   \<and> exit_status (fst (main example_distance failing_planner example_sim example_sim
         dummy_perception example_goal)) = 0"
proof -
  note run = planning_failure_exits[where d = example_distance and plan = failing_planner
      and sim = example_sim,
      OF example_goal_list example_red_done example_blue_match example_blue_exceeds
        example_blue_handle example_blue_no_plan]
  from run have "main example_distance failing_planner example_sim example_sim dummy_perception
      example_goal =
       (Some (SystemExit None),
        \<lparr>belief =
           (set_object_pose 0 (pose red_goal) dummy_perception)\<lparr>robot_state := [1, 0, 0, 0, 0, 0, 0]\<rparr>,
         plan_components = [example_subplan 2],
         printed = [Text ''Planning failure'', Json [(''attempts'', 10)]],
         planner_calls = [(2, pose red_goal), (3, pose blue_goal)]\<rparr>,
        example_sim)"
    by (simp add: after_red_def)
  with run example_goal_list example_red_done example_blue_match example_blue_exceeds
    example_blue_handle example_blue_no_plan
  show ?thesis by simp
qed

text \<open>
  The exit is not a non-zero one: on the shipped belief and goal, with a planner that
  finds no plan for the blue box, the run ends with \<^verbatim>\<open>SystemExit(None)\<close>, whose exit
  status is 0.
\<close>

theorem exit_status_counterexample:
  "failing_planner (belief after_red) 3 (pose blue_goal) = (None, [(''attempts'', 10)])
   \<and> fst (main example_distance failing_planner example_sim example_sim dummy_perception
        example_goal) = Some (SystemExit None)
   \<and> exit_status (fst (main example_distance failing_planner example_sim example_sim
        dummy_perception example_goal)) = 0"
  by (simp add: example_run_fails example_blue_no_plan)

section \<open>Trajectory playback and attachments\<close>





















section \<open>Synchronising an instance with a belief\<close>

text \<open>
  C8. \<^verbatim>\<open>set_belief\<close> asserts that the belief and the instance hold the same number
  of objects, and then calls \<^verbatim>\<open>create_object\<close> for every object state and poses
  the body that call returns. On the example instance, which tracks the bodies 2 and 3,
  with the goal of the shipped run as the belief and the shipped factories (each creates
  a box), the call succeeds, the tracked bodies stay where they were, two bodies 4 and 5
  are created at the belief's poses, and the instance still tracks 2 and 3. The arm
  joints take the belief's joint state and the fingers the open limit.
\<close>

theorem set_belief_creates_bodies:
  "fst (set_belief example_goal example_sim) = Inr ()
   \<and> movable_objects (snd (set_belief example_goal example_sim)) = [2, 3]
   \<and> body_pose (client (snd (set_belief example_goal example_sim))) 2 = body_pose (client example_sim) 2
   \<and> body_pose (client (snd (set_belief example_goal example_sim))) 3 = body_pose (client example_sim) 3
   \<and> body_pose (client example_sim) 2 \<noteq> Some (pose red_goal)
   \<and> body_pose (client example_sim) 3 \<noteq> Some (pose blue_goal)
   \<and> num_bodies (client example_sim) = 4
   \<and> num_bodies (client (snd (set_belief example_goal example_sim))) = 6
   \<and> body_pose (client (snd (set_belief example_goal example_sim))) 4 = Some (pose red_goal)
   \<and> body_pose (client (snd (set_belief example_goal example_sim))) 5 = Some (pose blue_goal)
   \<and> map (\<lambda>j. joint_position (client (snd (set_belief example_goal example_sim))) (0, j))
         [0, 1, 2, 3, 4, 5, 6] = robot_state example_goal
   \<and> map (\<lambda>j. joint_position (client (snd (set_belief example_goal example_sim))) (0, j))
         [9, 10] = [4 / 100, 4 / 100]"
  by (simp add: example_defs set_belief_def create_box_def set_pose_def arm_group_def
      set_group_positions_def get_group_joints_def set_joint_positions_def PANDA_GROUPS_def
      open_gripper_def get_group_limits_def get_custom_limits_def GRIPPER_GROUP_def
      DEFAULT_JOINT_POSITIONS_def)

section \<open>The pre-grasp pose\<close>

text \<open>
  C9. \<^verbatim>\<open>get_pregrasp_pose\<close> is the composition, from left to right, of
  \<^verbatim>\<open>gripper_T_tool\<close>, the translation by \<^verbatim>\<open>tool_distance\<close> along x, the current
  tool pose and the translation by \<^verbatim>\<open>-object_distance\<close> along z; it reads nothing
  but its arguments (not even the grasp). When three of the four are the identity and
  the fourth is a pure translation, the result is that translation.
\<close>

theorem pregrasp_pose_composition:
  "get_pregrasp_pose g cur gTt td od =
     multiplyTransforms (multiplyTransforms (multiplyTransforms gTt (Pose (Point td 0 0))) cur)
       (Pose (Point 0 0 (- od)))
   \<and> get_pregrasp_pose g unit_pose (Pose (Point x y z)) 0 0 = Pose (Point x y z)
   \<and> get_pregrasp_pose g (Pose (Point x y z)) unit_pose 0 0 = Pose (Point x y z)
   \<and> get_pregrasp_pose g unit_pose unit_pose td 0 = Pose (Point td 0 0)
   \<and> get_pregrasp_pose g unit_pose unit_pose 0 od = Pose (Point 0 0 (- od))"
  by (simp add: get_pregrasp_pose_def multiply_def Pose_def Point_def unit_pose_def unit_quat_def)


end
